theory Spec2Isabelle
  imports Main "HOL-Library.AList" "HOL-Library.Sublist"
begin

section \<open>JavaScript values and strings\<close>

text \<open>
  The browser code of the repository (\<^verbatim>\<open>auth.js\<close> and the client pages) handles
  cookie strings, JSON records and HTTP responses. Strings are character lists
  (code units below 256). The primitive values that occur are \<^verbatim>\<open>undefined\<close>,
  \<^verbatim>\<open>null\<close>, booleans, numbers and strings. A number \<open>JNum n\<close> is an integer
  of magnitude below \<open>10\<^sup>2\<^sup>1\<close>, the numbers that JavaScript prints as a plain
  decimal numeral (identifiers and lengths are such).
\<close>

datatype jsval = JUndefined | JNull | JBool bool | JNum int | JStr string

text \<open>ToBoolean, as used by \<^verbatim>\<open>!x\<close>, \<^verbatim>\<open>x ? a : b\<close> and \<^verbatim>\<open>x || y\<close>.\<close>

fun truthy :: "jsval \<Rightarrow> bool" where
  "truthy JUndefined = False"
| "truthy JNull = False"
| "truthy (JBool b) = b"
| "truthy (JNum n) = (n \<noteq> 0)"
| "truthy (JStr s) = (s \<noteq> [])"

fun digit_char :: "nat \<Rightarrow> char" where
  "digit_char n = (''0123456789'' ! (n mod 10))"

fun string_of_nat :: "nat \<Rightarrow> string" where
  "string_of_nat n =
     (if n < 10 then [digit_char n] else string_of_nat (n div 10) @ [digit_char n])"

declare string_of_nat.simps [simp del]

definition string_of_int :: "int \<Rightarrow> string" where
  "string_of_int i = (if i < 0 then CHR ''-'' # string_of_nat (nat (- i)) else string_of_nat (nat i))"

text \<open>
  ToString, as applied by a template literal \<^verbatim>\<open>`${x}`\<close>, on the values above: a
  number in its decimal digits.
\<close>

fun toString :: "jsval \<Rightarrow> string" where
  "toString JUndefined = ''undefined''"
| "toString JNull = ''null''"
| "toString (JBool b) = (if b then ''true'' else ''false'')"
| "toString (JNum n) = string_of_int n"
| "toString (JStr s) = s"

text \<open>\<^verbatim>\<open>x || y\<close> on values.\<close>

definition js_or :: "jsval \<Rightarrow> jsval \<Rightarrow> jsval" where
  "js_or x y = (if truthy x then x else y)"

text \<open>\<^verbatim>\<open>s.split(c)\<close> for a one-character separator: never the empty list.\<close>

fun split_on :: "char \<Rightarrow> string \<Rightarrow> string list" where
  "split_on c [] = [[]]"
| "split_on c (x # xs) =
     (if x = c then [] # split_on c xs
      else (case split_on c xs of [] \<Rightarrow> [[x]] | p # ps \<Rightarrow> (x # p) # ps))"

text \<open>The white space and line terminators that \<^verbatim>\<open>trim()\<close> removes, below 256.\<close>

definition is_space :: "char \<Rightarrow> bool" where
  "is_space c = (c \<in> set [CHR 0x09, CHR 0x0A, CHR 0x0B, CHR 0x0C, CHR 0x0D, CHR 0x20, CHR 0xA0])"

definition trim :: "string \<Rightarrow> string" where
  "trim s = rev (dropWhile is_space (rev (dropWhile is_space s)))"

section \<open>Tokens from the cookie string\<close>

text \<open>
  \<^verbatim>\<open>for (let cookie of cookies) { const [name, value] = cookie.trim().split('=');
       if (name === key) return value; }  return null;\<close>
  A cookie without \<^verbatim>\<open>=\<close> gives \<^verbatim>\<open>value === undefined\<close>; text after a second
  \<^verbatim>\<open>=\<close> is dropped by the destructuring.
\<close>

fun cookie_loop :: "string \<Rightarrow> string list \<Rightarrow> jsval" where
  "cookie_loop key [] = JNull"
| "cookie_loop key (cookie # cookies) =
     (case split_on CHR ''='' (trim cookie) of
        [] \<Rightarrow> cookie_loop key cookies
      | [name] \<Rightarrow> if name = key then JUndefined else cookie_loop key cookies
      | name # v # _ \<Rightarrow> if name = key then JStr v else cookie_loop key cookies)"

definition getAccessToken :: "string \<Rightarrow> jsval" where
  "getAccessToken document_cookie = cookie_loop ''access_token'' (split_on CHR '';'' document_cookie)"

definition getRefreshToken :: "string \<Rightarrow> jsval" where
  "getRefreshToken document_cookie = cookie_loop ''refresh_token'' (split_on CHR '';'' document_cookie)"

text \<open>The names of the cookies in a cookie string, as the loop reads them.\<close>

definition cookie_names :: "string \<Rightarrow> string list" where
  "cookie_names document_cookie =
     map (\<lambda>cookie. case split_on CHR ''='' (trim cookie) of [] \<Rightarrow> [] | name # _ \<Rightarrow> name)
       (split_on CHR '';'' document_cookie)"

section \<open>JSON text\<close>

text \<open>
  \<^verbatim>\<open>JSON.stringify\<close> on an object whose properties are primitive values: a
  property whose value is \<^verbatim>\<open>undefined\<close> is left out, strings are quoted with the
  quote, the backslash and the control characters escaped.
\<close>

definition hex_digit :: "nat \<Rightarrow> char" where
  "hex_digit n = (''0123456789abcdef'' ! (n mod 16))"

definition json_escape_char :: "char \<Rightarrow> string" where
  "json_escape_char c =
     (if c = CHR 0x22 then [CHR 0x5C, CHR 0x22]
      else if c = CHR 0x5C then [CHR 0x5C, CHR 0x5C]
      else if c = CHR 0x08 then [CHR 0x5C, CHR ''b'']
      else if c = CHR 0x09 then [CHR 0x5C, CHR ''t'']
      else if c = CHR 0x0A then [CHR 0x5C, CHR ''n'']
      else if c = CHR 0x0C then [CHR 0x5C, CHR ''f'']
      else if c = CHR 0x0D then [CHR 0x5C, CHR ''r'']
      else if (of_char c :: nat) < 32
        then [CHR 0x5C, CHR ''u'', CHR ''0'', CHR ''0'',
              hex_digit ((of_char c :: nat) div 16), hex_digit (of_char c :: nat)]
      else [c])"

definition json_quote :: "string \<Rightarrow> string" where
  "json_quote s = [CHR 0x22] @ concat (map json_escape_char s) @ [CHR 0x22]"

fun json_of_val :: "jsval \<Rightarrow> string" where
  "json_of_val (JStr s) = json_quote s"
| "json_of_val v = toString v"

fun join :: "string \<Rightarrow> string list \<Rightarrow> string" where
  "join sep [] = []"
| "join sep [x] = x"
| "join sep (x # y # ys) = x @ sep @ join sep (y # ys)"

type_synonym obj = "(string \<times> jsval) list"

definition JSON_stringify :: "obj \<Rightarrow> string" where
  "JSON_stringify ob =
     ''{'' @ join '','' (map (\<lambda>(k, v). json_quote k @ '':'' @ json_of_val v)
                         (filter (\<lambda>(k, v). v \<noteq> JUndefined) ob)) @ ''}''"

text \<open>Reading a property; a missing one is \<^verbatim>\<open>undefined\<close>.\<close>

definition get_prop :: "obj \<Rightarrow> string \<Rightarrow> jsval" where
  "get_prop ob k = (case map_of ob k of None \<Rightarrow> JUndefined | Some v \<Rightarrow> v)"

section \<open>The browser: requests, responses, effects\<close>

text \<open>
  What \<^verbatim>\<open>fetch\<close> is called with: the URL and, from the init object, the method
  (\<^verbatim>\<open>undefined\<close> when the caller gave none), the headers and the body.
\<close>

record http_request =
  req_url :: string
  req_method :: "string option"
  req_headers :: "(string \<times> string) list"
  req_body :: "string option"

text \<open>
  A parsed JSON body, as far as the pages look at it: a primitive value, one
  record, or an array of records.
\<close>

datatype json = JsonPrim jsval | JsonObject obj | JsonArray "obj list"

text \<open>
  A response: its status and the result of \<^verbatim>\<open>response.json()\<close>, which rejects
  (\<open>None\<close>) when the body is not JSON. \<^verbatim>\<open>response.ok\<close> is the status being in
  200..299.
\<close>

record response =
  status :: nat
  json_body :: "json option"

definition ok :: "response \<Rightarrow> bool" where
  "ok r = (200 \<le> status r \<and> status r \<le> 299)"

text \<open>\<^verbatim>\<open>fetch\<close> either resolves with a response or rejects (the request never completed).\<close>

datatype fetch_outcome = Rejected | Resolved response

datatype js_error = NetworkError | TypeError | SyntaxError

text \<open>The effects of the pages, in the order they happen.\<close>

datatype event =
    Fetch http_request
  | SetLocationHref string
  | ShowNotification string string
  | ConfirmDialog string string string
  | SetInnerHTML string string

record browser =
  cookie :: string
  events :: "event list"

text \<open>
  The network and the server are an oracle: given the browser as it is when the
  request is issued, the outcome of the request and the cookie string the page
  sees once the call has settled.
\<close>

type_synonym network = "browser \<Rightarrow> http_request \<Rightarrow> fetch_outcome \<times> string"

definition sent :: "http_request \<Rightarrow> string \<Rightarrow> browser \<Rightarrow> browser" where
  "sent req c w = w\<lparr>cookie := c, events := events w @ [Fetch req]\<rparr>"

definition fetch :: "network \<Rightarrow> http_request \<Rightarrow> browser \<Rightarrow> fetch_outcome \<times> browser" where
  "fetch net req w = (case net w req of (out, c) \<Rightarrow> (out, sent req c w))"

definition set_location_href :: "string \<Rightarrow> browser \<Rightarrow> browser" where
  "set_location_href url w = w\<lparr>events := events w @ [SetLocationHref url]\<rparr>"

text \<open>\<^verbatim>\<open>showNotification(message, type = 'success')\<close>.\<close>

definition showNotification :: "string \<Rightarrow> string \<Rightarrow> browser \<Rightarrow> browser" where
  "showNotification message type w = w\<lparr>events := events w @ [ShowNotification message type]\<rparr>"

section \<open>apiRequest\<close>

definition API_BASE_URL :: string where
  "API_BASE_URL = ''http://127.0.0.1:8000''"

record options =
  http_method :: "string option"
  body :: "string option"
  headers :: "(string \<times> string) list"
  public :: bool

text \<open>\<^verbatim>\<open>options = {}\<close>.\<close>

definition no_options :: options where
  "no_options = \<lparr>http_method = None, body = None, headers = [], public = False\<rparr>"

text \<open>\<^verbatim>\<open>{ ...a, ...b }\<close> on objects with string keys.\<close>

definition spread :: "(string \<times> 'v) list \<Rightarrow> (string \<times> 'v) list \<Rightarrow> (string \<times> 'v) list" where
  "spread a b = fold (\<lambda>(k, v). AList.update k v) b a"

definition refresh_request :: "jsval \<Rightarrow> http_request" where
  "refresh_request refreshToken =
     \<lparr>req_url = API_BASE_URL @ ''/refresh'',
      req_method = Some ''POST'',
      req_headers = [(''Content-Type'', ''application/json'')],
      req_body = Some (JSON_stringify [(''refresh_token'', refreshToken)])\<rparr>"

definition primary_request :: "jsval \<Rightarrow> string \<Rightarrow> options \<Rightarrow> http_request" where
  "primary_request token endpoint opts =
     (let defaultHeaders = [(''Content-Type'', ''application/json'')];
          defaultHeaders = (if truthy token
                            then AList.update ''Authorization'' (''Bearer '' @ toString token) defaultHeaders
                            else defaultHeaders)
      in \<lparr>req_url = API_BASE_URL @ endpoint,
          req_method = http_method opts,
          req_headers = spread defaultHeaders (headers opts),
          req_body = body opts\<rparr>)"

text \<open>
  The result is an exception (\<open>Inl\<close>) or the returned value: \<open>None\<close> for
  \<^verbatim>\<open>undefined\<close> (the bare \<^verbatim>\<open>return;\<close>), \<open>Some r\<close> for a response.
\<close>

definition apiRequest ::
  "network \<Rightarrow> string \<Rightarrow> options \<Rightarrow> browser \<Rightarrow> (js_error + response option) \<times> browser" where
  "apiRequest net endpoint opts w =
     (let token = getAccessToken (cookie w) in
      if \<not> truthy token \<and> \<not> public opts then (Inr None, set_location_href ''/login'' w)
      else
        (case fetch net (primary_request token endpoint opts) w of
           (Rejected, w1) \<Rightarrow> (Inl NetworkError, w1)
         | (Resolved resp, w1) \<Rightarrow>
             if status resp = 401 \<and> \<not> public opts then
               (let refreshToken = getRefreshToken (cookie w1) in
                if truthy refreshToken then
                  (case fetch net (refresh_request refreshToken) w1 of
                     (Rejected, w2) \<Rightarrow> (Inr (Some resp), set_location_href ''/login'' w2)
                   | (Resolved refreshResponse, w2) \<Rightarrow>
                       if ok refreshResponse then
                         (case json_body refreshResponse of
                            None \<Rightarrow> (Inr (Some resp), set_location_href ''/login'' w2)
                          | Some tokens \<Rightarrow> (Inr (Some resp), set_location_href ''/login'' w2))
                       else (Inr (Some resp), set_location_href ''/login'' w2))
                else (Inr (Some resp), set_location_href ''/login'' w1))
             else (Inr (Some resp), w1)))"

section \<open>The confirmation dialog\<close>

text \<open>
  \<^verbatim>\<open>confirmDialog\<close> shows a modal and returns a promise that the Delete button
  resolves with \<^verbatim>\<open>true\<close> and the Cancel button with \<^verbatim>\<open>false\<close>. A modal closed by
  its header button is dismissed with the promise never settled: the awaiting caller
  does not continue.
\<close>

datatype answer = Confirmed | Cancelled | Unanswered

definition confirmDialog ::
  "answer \<Rightarrow> string \<Rightarrow> string \<Rightarrow> string \<Rightarrow> browser \<Rightarrow> bool option \<times> browser" where
  "confirmDialog a message confirmText cancelText w =
     ((case a of Confirmed \<Rightarrow> Some True | Cancelled \<Rightarrow> Some False | Unanswered \<Rightarrow> None),
      w\<lparr>events := events w @ [ConfirmDialog message confirmText cancelText]\<rparr>)"

section \<open>Rendering the tables\<close>

definition nl :: string where
  "nl = [CHR 0x0A]"

text \<open>\<^verbatim>\<open>!x\<close> and \<^verbatim>\<open>x.length\<close> on a parsed body.\<close>

fun json_truthy :: "json \<Rightarrow> bool" where
  "json_truthy (JsonPrim v) = truthy v"
| "json_truthy (JsonObject ob) = True"
| "json_truthy (JsonArray xs) = True"

fun json_length :: "json \<Rightarrow> jsval" where
  "json_length (JsonArray xs) = JNum (int (length xs))"
| "json_length (JsonObject ob) = get_prop ob ''length''"
| "json_length (JsonPrim (JStr s)) = JNum (int (length s))"
| "json_length (JsonPrim v) = JUndefined"

text \<open>Assigning \<^verbatim>\<open>innerHTML\<close> of the element with the given id, which the page holds.\<close>

definition set_innerHTML :: "string \<Rightarrow> string \<Rightarrow> browser \<Rightarrow> browser" where
  "set_innerHTML element_id html w = w\<lparr>events := events w @ [SetInnerHTML element_id html]\<rparr>"

definition noAdmins :: string where
  \<open>noAdmins =
     nl @ ''            <tr>'' @ nl @
     ''                <td colspan="6" class="text-center text-muted">'' @ nl @
     ''                    <i class="bi bi-people display-6"></i>'' @ nl @
     ''                    <p class="mt-2">No admins found</p>'' @ nl @
     ''                </td>'' @ nl @ ''            </tr>'' @ nl @ ''        ''\<close>

text \<open>
  The row template of \<^verbatim>\<open>displayAdmins\<close>: the fixed text and the interpolated
  values, concatenated in order. \<^verbatim>\<open>formatDate\<close> goes through the host's
  \<^verbatim>\<open>Date\<close> and locale, so it is a parameter.
\<close>

definition adminRow :: "(jsval \<Rightarrow> string) \<Rightarrow> obj \<Rightarrow> string" where
  \<open>adminRow formatDate admin =
     concat
     [nl @ ''        <tr>'' @ nl @ ''            <td>'',
      toString (get_prop admin ''admin_id''),
      ''</td>'' @ nl @ ''            <td>'' @ nl @ ''                <strong>'',
      toString (get_prop admin ''name''),
      ''</strong>'' @ nl @ ''            </td>'' @ nl @ ''            <td>'',
      toString (get_prop admin ''email''),
      ''</td>'' @ nl @ ''            <td>'' @ nl @ ''                <span class="badge '' @
      (if truthy (get_prop admin ''enabled'') then ''bg-success'' else ''bg-danger'') @ ''">'' @
      nl @ ''                    '' @
      (if truthy (get_prop admin ''enabled'') then ''Active'' else ''Inactive'') @ nl @
      ''                </span>'' @ nl @ ''            </td>'' @ nl @ ''            <td>'',
      formatDate (get_prop admin ''date_created''),
      ''</td>'' @ nl @ ''            <td>'' @ nl @
      ''                <div class="btn-group btn-group-sm" role="group">'' @ nl @
      ''                    <a href="/admins/edit/'',
      toString (get_prop admin ''admin_id''),
      ''" class="btn btn-outline-primary">'' @ nl @
      ''                        <i class="bi bi-pencil"></i>'' @ nl @
      ''                    </a>'' @ nl @
      ''                    <button type="button" class="btn btn-outline-danger" onclick="deleteAdmin('',
      toString (get_prop admin ''admin_id''),
      '')">'' @ nl @ ''                        <i class="bi bi-trash"></i>'' @ nl @
      ''                    </button>'' @ nl @ ''                </div>'' @ nl @
      ''            </td>'' @ nl @ ''        </tr>'' @ nl @ ''    '']\<close>

text \<open>
  Only an array has \<^verbatim>\<open>map\<close>: any other value that passes the emptiness test
  raises a TypeError.
\<close>

definition displayAdmins ::
  "(jsval \<Rightarrow> string) \<Rightarrow> json \<Rightarrow> browser \<Rightarrow> (js_error + unit) \<times> browser" where
  "displayAdmins formatDate admins w =
     (if \<not> json_truthy admins \<or> json_length admins = JNum 0
      then (Inr (), set_innerHTML ''adminsTableBody'' noAdmins w)
      else (case admins of
              JsonArray xs \<Rightarrow>
                (Inr (), set_innerHTML ''adminsTableBody'' (join [] (map (adminRow formatDate) xs)) w)
            | _ \<Rightarrow> (Inl TypeError, w)))"

definition noClients :: string where
  \<open>noClients =
     nl @ ''            <tr>'' @ nl @
     ''                <td colspan="8" class="text-center text-muted">'' @ nl @
     ''                    <i class="bi bi-people display-6"></i>'' @ nl @
     ''                    <p class="mt-2">No clients found</p>'' @ nl @
     ''                </td>'' @ nl @ ''            </tr>'' @ nl @ ''        ''\<close>

definition clientRow :: "(jsval \<Rightarrow> string) \<Rightarrow> obj \<Rightarrow> string" where
  \<open>clientRow formatDate client =
     concat
     [nl @ ''        <tr>'' @ nl @ ''            <td>'',
      toString (get_prop client ''client_id''),
      ''</td>'' @ nl @ ''            <td>'' @ nl @ ''                <strong>'',
      toString (get_prop client ''name''),
      ''</strong>'' @ nl @ ''                '' @
      (if truthy (get_prop client ''is_deleted'') then ''<span class="badge bg-secondary ms-2">Deleted</span>'' else []) @
      nl @ ''            </td>'' @ nl @ ''            <td>'',
      toString (get_prop client ''email''),
      ''</td>'' @ nl @ ''            <td>'',
      toString (js_or (get_prop client ''phones'') (JStr ''-'')),
      ''</td>'' @ nl @ ''            <td>'' @ nl @ ''                <span class="badge '' @
      (if truthy (get_prop client ''enabled'') then ''bg-success'' else ''bg-danger'') @ ''">'' @
      nl @ ''                    '' @
      (if truthy (get_prop client ''enabled'') then ''Active'' else ''Inactive'') @ nl @
      ''                </span>'' @ nl @ ''            </td>'' @ nl @ ''            <td>'',
      toString (js_or (get_prop client ''admin_id'') (JStr ''-'')),
      ''</td>'' @ nl @ ''            <td>'',
      formatDate (get_prop client ''date_created''),
      ''</td>'' @ nl @ ''            <td>'' @ nl @
      ''                <div class="btn-group btn-group-sm" role="group">'' @ nl @
      ''                    <a href="/clients/edit/'',
      toString (get_prop client ''client_id''),
      ''" class="btn btn-outline-primary">'' @ nl @
      ''                        <i class="bi bi-pencil"></i>'' @ nl @
      ''                    </a>'' @ nl @
      ''                    <button type="button" class="btn btn-outline-danger" onclick="deleteClient('',
      toString (get_prop client ''client_id''),
      '')">'' @ nl @ ''                        <i class="bi bi-trash"></i>'' @ nl @
      ''                    </button>'' @ nl @ ''                </div>'' @ nl @
      ''            </td>'' @ nl @ ''        </tr>'' @ nl @ ''    '']\<close>

definition displayClients ::
  "(jsval \<Rightarrow> string) \<Rightarrow> json \<Rightarrow> browser \<Rightarrow> (js_error + unit) \<times> browser" where
  "displayClients formatDate clients w =
     (if \<not> json_truthy clients \<or> json_length clients = JNum 0
      then (Inr (), set_innerHTML ''clientsTableBody'' noClients w)
      else (case clients of
              JsonArray xs \<Rightarrow>
                (Inr (), set_innerHTML ''clientsTableBody'' (join [] (map (clientRow formatDate) xs)) w)
            | _ \<Rightarrow> (Inl TypeError, w)))"

section \<open>Loading, deleting and reading records\<close>

text \<open>
  Inside \<^verbatim>\<open>try\<close>, every exception ends in the \<^verbatim>\<open>catch\<close>: a rejected request,
  \<^verbatim>\<open>response.ok\<close> read on \<^verbatim>\<open>undefined\<close>, a body that is not JSON, a body that
  cannot be mapped.
\<close>

definition loadAdmins :: "network \<Rightarrow> (jsval \<Rightarrow> string) \<Rightarrow> browser \<Rightarrow> browser" where
  "loadAdmins net formatDate w =
     (case apiRequest net ''/admins/'' no_options w of
        (Inl e, w1) \<Rightarrow> showNotification ''Network error'' ''danger'' w1
      | (Inr None, w1) \<Rightarrow> showNotification ''Network error'' ''danger'' w1
      | (Inr (Some response), w1) \<Rightarrow>
          if ok response then
            (case json_body response of
               None \<Rightarrow> showNotification ''Network error'' ''danger'' w1
             | Some admins \<Rightarrow>
                 (case displayAdmins formatDate admins w1 of
                    (Inl e, w2) \<Rightarrow> showNotification ''Network error'' ''danger'' w2
                  | (Inr u, w2) \<Rightarrow> w2))
          else showNotification ''Failed to load admins'' ''danger'' w1)"

definition loadClients :: "network \<Rightarrow> (jsval \<Rightarrow> string) \<Rightarrow> browser \<Rightarrow> browser" where
  "loadClients net formatDate w =
     (case apiRequest net ''/clients/'' no_options w of
        (Inl e, w1) \<Rightarrow> showNotification ''Network error'' ''danger'' w1
      | (Inr None, w1) \<Rightarrow> showNotification ''Network error'' ''danger'' w1
      | (Inr (Some response), w1) \<Rightarrow>
          if ok response then
            (case json_body response of
               None \<Rightarrow> showNotification ''Network error'' ''danger'' w1
             | Some clients \<Rightarrow>
                 (case displayClients formatDate clients w1 of
                    (Inl e, w2) \<Rightarrow> showNotification ''Network error'' ''danger'' w2
                  | (Inr u, w2) \<Rightarrow> w2))
          else showNotification ''Failed to load clients'' ''danger'' w1)"

text \<open>
  The result is \<open>None\<close> when the call never returns (the dialog was dismissed
  unanswered), \<open>Some ()\<close> when it returns. The reload after a successful delete is
  started without \<^verbatim>\<open>await\<close> as the last statement, so its effects follow in
  order.
\<close>

definition deleteAdmin ::
  "network \<Rightarrow> (jsval \<Rightarrow> string) \<Rightarrow> answer \<Rightarrow> jsval \<Rightarrow> browser \<Rightarrow> unit option \<times> browser" where
  "deleteAdmin net formatDate a adminId w =
     (case confirmDialog a
             ''Are you sure you want to delete this admin? This action cannot be undone.''
             ''Delete'' ''Cancel'' w of
        (None, w0) \<Rightarrow> (None, w0)
      | (Some confirmed, w0) \<Rightarrow>
          if \<not> confirmed then (Some (), w0)
          else
            (case apiRequest net (''/admins/'' @ toString adminId)
                    (no_options\<lparr>http_method := Some ''DELETE''\<rparr>) w0 of
               (Inl e, w1) \<Rightarrow> (Some (), showNotification ''Network error'' ''danger'' w1)
             | (Inr None, w1) \<Rightarrow> (Some (), showNotification ''Network error'' ''danger'' w1)
             | (Inr (Some response), w1) \<Rightarrow>
                 if ok response
                 then (Some (), loadAdmins net formatDate
                                  (showNotification ''Admin deleted successfully'' ''success'' w1))
                 else (Some (), showNotification ''Failed to delete admin'' ''danger'' w1)))"

definition deleteClient ::
  "network \<Rightarrow> (jsval \<Rightarrow> string) \<Rightarrow> answer \<Rightarrow> jsval \<Rightarrow> browser \<Rightarrow> unit option \<times> browser" where
  "deleteClient net formatDate a clientId w =
     (case confirmDialog a ''Are you sure you want to delete this client?''
             ''Delete'' ''Cancel'' w of
        (None, w0) \<Rightarrow> (None, w0)
      | (Some confirmed, w0) \<Rightarrow>
          if \<not> confirmed then (Some (), w0)
          else
            (case apiRequest net (''/clients/'' @ toString clientId)
                    (no_options\<lparr>http_method := Some ''DELETE''\<rparr>) w0 of
               (Inl e, w1) \<Rightarrow> (Some (), showNotification ''Network error'' ''danger'' w1)
             | (Inr None, w1) \<Rightarrow> (Some (), showNotification ''Network error'' ''danger'' w1)
             | (Inr (Some response), w1) \<Rightarrow>
                 if ok response
                 then (Some (), loadClients net formatDate
                                  (showNotification ''Client deleted successfully'' ''success'' w1))
                 else (Some (), showNotification ''Failed to delete client'' ''danger'' w1)))"

text \<open>No \<^verbatim>\<open>try\<close> here: the exceptions reach the caller.\<close>

definition getAdmin :: "network \<Rightarrow> jsval \<Rightarrow> browser \<Rightarrow> (js_error + json) \<times> browser" where
  "getAdmin net adminId w =
     (case apiRequest net (''/admins/'' @ toString adminId) no_options w of
        (Inl e, w1) \<Rightarrow> (Inl e, w1)
      | (Inr None, w1) \<Rightarrow> (Inl TypeError, w1)
      | (Inr (Some response), w1) \<Rightarrow>
          if ok response then
            (case json_body response of
               None \<Rightarrow> (Inl SyntaxError, w1)
             | Some j \<Rightarrow> (Inr j, w1))
          else (Inr (JsonPrim JNull), w1))"

definition getClient :: "network \<Rightarrow> jsval \<Rightarrow> browser \<Rightarrow> (js_error + json) \<times> browser" where
  "getClient net clientId w =
     (case apiRequest net (''/clients/'' @ toString clientId) no_options w of
        (Inl e, w1) \<Rightarrow> (Inl e, w1)
      | (Inr None, w1) \<Rightarrow> (Inl TypeError, w1)
      | (Inr (Some response), w1) \<Rightarrow>
          if ok response then
            (case json_body response of
               None \<Rightarrow> (Inl SyntaxError, w1)
             | Some j \<Rightarrow> (Inr j, w1))
          else (Inr (JsonPrim JNull), w1))"

section \<open>The shell script: logout\<close>

text \<open>
  The script keeps the tokens in the global variables \<^verbatim>\<open>ACCESS_TOKEN\<close> and
  \<^verbatim>\<open>REFRESH_TOKEN\<close>. What it prints and the \<^verbatim>\<open>curl\<close> commands it runs are kept
  in order.
\<close>

record curl_command =
  curl_method :: string
  curl_url :: string
  curl_headers :: "string list"
  curl_data :: string

datatype sh_event =
    Print_header string
  | Print_success string
  | Print_error string
  | Echo string
  | Curl curl_command

record shell =
  ACCESS_TOKEN :: string
  REFRESH_TOKEN :: string
  terminal :: "sh_event list"

definition API_BASE :: string where
  "API_BASE = ''http://localhost:8000''"

definition emit :: "sh_event \<Rightarrow> shell \<Rightarrow> shell" where
  "emit e sh = sh\<lparr>terminal := terminal sh @ [e]\<rparr>"

text \<open>Command substitution \<^verbatim>\<open>$(...)\<close> drops the trailing newlines of the output.\<close>

definition strip_newlines :: "string \<Rightarrow> string" where
  "strip_newlines s = rev (dropWhile (\<lambda>c. c = CHR 0x0A) (rev s))"

text \<open>
  \<^verbatim>\<open>cut -d'|' -fN\<close>, line by line: a line without the delimiter is printed
  whole, a line with fewer than N fields gives an empty line.
\<close>

definition cut_line :: "nat \<Rightarrow> string \<Rightarrow> string" where
  "cut_line n l =
     (if CHR ''|'' \<notin> set l then l
      else (let fs = split_on CHR ''|'' l in if 0 < n \<and> n \<le> length fs then fs ! (n - 1) else []))"

definition cut_field :: "nat \<Rightarrow> string \<Rightarrow> string" where
  "cut_field n s = strip_newlines (join nl (map (cut_line n) (split_on CHR 0x0A s)))"

text \<open>
  \<^verbatim>\<open>echo "$x"\<close> takes an argument made of \<^verbatim>\<open>-\<close> and the letters
  \<^verbatim>\<open>n\<close>, \<^verbatim>\<open>e\<close>, \<^verbatim>\<open>E\<close> as options and prints no text for it; any other
  argument is printed as it is.
\<close>

definition is_echo_option :: "string \<Rightarrow> bool" where
  "is_echo_option x =
     (case x of
        [] \<Rightarrow> False
      | c # t \<Rightarrow> c = CHR ''-'' \<and> t \<noteq> [] \<and> list_all (\<lambda>d. d = CHR ''n'' \<or> d = CHR ''e'' \<or> d = CHR ''E'') t)"

definition echo_text :: "string \<Rightarrow> string" where
  "echo_text x = (if is_echo_option x then [] else x)"

text \<open>
  \<^verbatim>\<open>[ "$x" -eq 200 ]\<close>: true when \<^verbatim>\<open>x\<close> is a decimal integer of value 200,
  with a sign allowed, any white space before it and only spaces and tabs after
  it; a non-integer makes the test fail with an error, which \<^verbatim>\<open>if\<close> takes as
  false. A number too large for the shell is refused there as well; it is not 200
  either way.
\<close>

definition is_blank :: "char \<Rightarrow> bool" where
  "is_blank c = (c \<in> set [CHR 0x20, CHR 0x09, CHR 0x0A, CHR 0x0B, CHR 0x0C, CHR 0x0D])"

definition is_space_or_tab :: "char \<Rightarrow> bool" where
  "is_space_or_tab c = (c = CHR 0x20 \<or> c = CHR 0x09)"

definition is_digit :: "char \<Rightarrow> bool" where
  "is_digit c = (c \<in> set ''0123456789'')"

definition digits_value :: "string \<Rightarrow> int" where
  "digits_value ds = foldl (\<lambda>acc c. 10 * acc + (int (of_char c) - 48)) 0 ds"

definition sh_integer :: "string \<Rightarrow> int option" where
  "sh_integer s =
     (let t = dropWhile is_blank s;
          neg = (case t of [] \<Rightarrow> False | c # r \<Rightarrow> c = CHR ''-'');
          u = (case t of [] \<Rightarrow> [] | c # r \<Rightarrow> if c = CHR ''-'' \<or> c = CHR ''+'' then r else t);
          ds = takeWhile is_digit u;
          rest = dropWhile is_space_or_tab (dropWhile is_digit u)
      in if ds = [] \<or> rest \<noteq> [] then None
         else Some (if neg then - digits_value ds else digits_value ds))"

definition test_eq :: "string \<Rightarrow> int \<Rightarrow> bool" where
  "test_eq x n = (sh_integer x = Some n)"

text \<open>
  \<open>curl\<close> gives the text that the command prints for a request (the body, then
  \<^verbatim>\<open>|\<close> and the status code, by \<^verbatim>\<open>-w "|%{http_code}"\<close>). The result of
  \<^verbatim>\<open>logout\<close> is its exit status and the shell afterwards.
\<close>

definition logout :: "(curl_command \<Rightarrow> string) \<Rightarrow> shell \<Rightarrow> nat \<times> shell" where
  \<open>logout curl sh =
     (let sh = emit (Print_header ''4. LOGOUT'') sh in
      if REFRESH_TOKEN sh = []
      then (1, emit (Print_error ''No refresh token available. Already logged out?'') sh)
      else
        (let cmd = \<lparr>curl_method = ''POST'',
                    curl_url = API_BASE @ ''/logout'',
                    curl_headers = [''Content-Type: application/json'',
                                    ''Authorization: Bearer '' @ ACCESS_TOKEN sh],
                    curl_data = ''{"refresh_token": "'' @ REFRESH_TOKEN sh @ ''"}''\<rparr>;
             response = strip_newlines (curl cmd);
             sh = emit (Curl cmd) sh;
             body = cut_field 1 (echo_text response);
             status_code = cut_field 2 (echo_text response);
             sh = emit (Echo (''Response: '' @ body)) sh;
             sh = emit (Echo (''Status Code: '' @ status_code)) sh
         in if test_eq status_code 200
            then (0, (emit (Print_success ''Logout successful! Tokens revoked.'') sh)
                       \<lparr>ACCESS_TOKEN := [], REFRESH_TOKEN := []\<rparr>)
            else (0, (emit (Print_error ''Logout failed, but clearing local tokens anyway'') sh)
                       \<lparr>ACCESS_TOKEN := [], REFRESH_TOKEN := []\<rparr>)))\<close>

section \<open>Sample environments\<close>

text \<open>A network that is down: every request is rejected.\<close>

definition net_down :: network where
  "net_down w req = (Rejected, cookie w)"

text \<open>A server that answers every request with 401 and an empty body.\<close>

definition net_unauthorized :: network where
  "net_unauthorized w req = (Resolved \<lparr>status = 401, json_body = None\<rparr>, cookie w)"

text \<open>A server that answers 401, with the refresh endpoint unreachable.\<close>

definition net_refresh_down :: network where
  "net_refresh_down w req =
     (if req_url req = API_BASE_URL @ ''/refresh'' then (Rejected, cookie w)
      else (Resolved \<lparr>status = 401, json_body = None\<rparr>, cookie w))"

text \<open>
  A server whose access token \<^verbatim>\<open>A\<close> has expired: \<^verbatim>\<open>POST /refresh\<close> issues the
  tokens \<^verbatim>\<open>A2\<close> and \<^verbatim>\<open>R2\<close>; a request bearing \<^verbatim>\<open>A2\<close> is answered 200 with
  an empty list, any other request 401.
\<close>

definition net_refresh_ok :: network where
  "net_refresh_ok w req =
     (if req_url req = API_BASE_URL @ ''/refresh''
      then (Resolved \<lparr>status = 200,
                      json_body = Some (JsonObject [(''access_token'', JStr ''A2''),
                                                    (''refresh_token'', JStr ''R2'')])\<rparr>, cookie w)
      else if map_of (req_headers req) ''Authorization'' = Some ''Bearer A2''
      then (Resolved \<lparr>status = 200, json_body = Some (JsonArray [])\<rparr>, cookie w)
      else (Resolved \<lparr>status = 401, json_body = None\<rparr>, cookie w))"

text \<open>A server that accepts everything and lists one admin.\<close>

definition acme :: obj where
  "acme = [(''admin_id'', JNum 1), (''client_id'', JNum 1), (''name'', JStr ''Acme''),
           (''email'', JStr ''a@x.com''), (''enabled'', JBool True),
           (''date_created'', JStr ''2024-01-01T00:00:00Z'')]"

definition net_ok :: network where
  "net_ok w req = (Resolved \<lparr>status = 200, json_body = Some (JsonArray [acme])\<rparr>, cookie w)"

definition logged_in :: browser where
  "logged_in = \<lparr>cookie = ''access_token=A; refresh_token=R'', events = []\<rparr>"

definition access_only :: browser where
  "access_only = \<lparr>cookie = ''access_token=A'', events = []\<rparr>"

definition anonymous :: browser where
  "anonymous = \<lparr>cookie = ''theme=dark'', events = []\<rparr>"

definition iso_date :: "jsval \<Rightarrow> string" where
  "iso_date v = toString v"

definition public_options :: options where
  "public_options = \<lparr>http_method = Some ''POST'', body = None, headers = [], public = True\<rparr>"

definition shell_logged_in :: shell where
  "shell_logged_in = \<lparr>ACCESS_TOKEN = ''A'', REFRESH_TOKEN = ''R'', terminal = []\<rparr>"

definition curl_fails :: "curl_command \<Rightarrow> string" where
  "curl_fails cmd = ''|000''"

definition curl_500 :: "curl_command \<Rightarrow> string" where
  \<open>curl_500 cmd = ''{"detail":"Internal Server Error"}|500''\<close>

definition curl_200 :: "curl_command \<Rightarrow> string" where
  \<open>curl_200 cmd = ''{"message":"Logged out"}|200''\<close>

section \<open>Reading the rendered text\<close>

text \<open>The number of places at which a text occurs in another.\<close>

fun occurrences :: "string \<Rightarrow> string \<Rightarrow> nat" where
  "occurrences pat [] = (if pat = [] then 1 else 0)"
| "occurrences pat (c # s) = (if prefix pat (c # s) then 1 else 0) + occurrences pat s"

text \<open>Whether a text ends in a beginning of the pattern that is not the whole pattern.\<close>

fun straddles :: "string \<Rightarrow> string \<Rightarrow> bool" where
  "straddles pat [] = False"
| "straddles pat (c # s) = (strict_prefix (c # s) pat \<or> straddles pat s)"

text \<open>Text without markup: it opens no tag.\<close>

definition plain :: "string \<Rightarrow> bool" where
  "plain s = (CHR ''<'' \<notin> set s)"

text \<open>The values a row interpolates as text.\<close>

definition admin_texts :: "(jsval \<Rightarrow> string) \<Rightarrow> obj \<Rightarrow> string list" where
  "admin_texts formatDate admin =
     [toString (get_prop admin ''admin_id''), toString (get_prop admin ''name''),
      toString (get_prop admin ''email''), formatDate (get_prop admin ''date_created'')]"

definition client_texts :: "(jsval \<Rightarrow> string) \<Rightarrow> obj \<Rightarrow> string list" where
  "client_texts formatDate client =
     [toString (get_prop client ''client_id''), toString (get_prop client ''name''),
      toString (get_prop client ''email''),
      toString (js_or (get_prop client ''phones'') (JStr ''-'')),
      toString (js_or (get_prop client ''admin_id'') (JStr ''-'')),
      formatDate (get_prop client ''date_created'')]"

text \<open>The status badge of a row, with its class and its label.\<close>

definition badge :: "string \<Rightarrow> string \<Rightarrow> string" where
  \<open>badge cls label =
     ''<span class="badge '' @ cls @ ''">'' @ nl @ ''                    '' @ label @ nl @
     ''                </span>''\<close>

text \<open>
  Whether, in a list of segments, a given segment stands between one that ends
  with \<open>a\<close> and one that begins with \<open>b\<close>.
\<close>

fun framed :: "string \<Rightarrow> string \<Rightarrow> string \<Rightarrow> string list \<Rightarrow> bool" where
  "framed a f b (g1 # x # g2 # rest) =
     ((x = f \<and> prefix (rev a) (rev g1) \<and> prefix b g2) \<or> framed a f b (x # g2 # rest))"
| "framed a f b segs = False"

text \<open>
  What a row is to show of its record: each field in its cell, the badge of the
  record's state, and the edit and delete controls for the record's id.
\<close>

definition shows_admin :: "(jsval \<Rightarrow> string) \<Rightarrow> obj \<Rightarrow> string \<Rightarrow> bool" where
  \<open>shows_admin formatDate admin row =
     (sublist (''<td>'' @ toString (get_prop admin ''admin_id'') @ ''</td>'') row
      \<and> sublist (''<strong>'' @ toString (get_prop admin ''name'') @ ''</strong>'') row
      \<and> sublist (''<td>'' @ toString (get_prop admin ''email'') @ ''</td>'') row
      \<and> sublist (''<td>'' @ formatDate (get_prop admin ''date_created'') @ ''</td>'') row
      \<and> sublist (if truthy (get_prop admin ''enabled'') then badge ''bg-success'' ''Active''
                   else badge ''bg-danger'' ''Inactive'') row
      \<and> sublist (''<a href="/admins/edit/'' @ toString (get_prop admin ''admin_id'')
                   @ ''" class="btn btn-outline-primary">'') row
      \<and> sublist (''onclick="deleteAdmin('' @ toString (get_prop admin ''admin_id'') @ '')">'') row)\<close>

definition shows_client :: "(jsval \<Rightarrow> string) \<Rightarrow> obj \<Rightarrow> string \<Rightarrow> bool" where
  \<open>shows_client formatDate client row =
     (sublist (''<td>'' @ toString (get_prop client ''client_id'') @ ''</td>'') row
      \<and> sublist (''<strong>'' @ toString (get_prop client ''name'') @ ''</strong>'') row
      \<and> sublist (''<td>'' @ toString (get_prop client ''email'') @ ''</td>'') row
      \<and> sublist (''<td>'' @ toString (js_or (get_prop client ''phones'') (JStr ''-'')) @ ''</td>'') row
      \<and> sublist (''<td>'' @ toString (js_or (get_prop client ''admin_id'') (JStr ''-'')) @ ''</td>'') row
      \<and> sublist (''<td>'' @ formatDate (get_prop client ''date_created'') @ ''</td>'') row
      \<and> sublist (if truthy (get_prop client ''enabled'') then badge ''bg-success'' ''Active''
                   else badge ''bg-danger'' ''Inactive'') row
      \<and> sublist (''<a href="/clients/edit/'' @ toString (get_prop client ''client_id'')
                   @ ''" class="btn btn-outline-primary">'') row
      \<and> sublist (''onclick="deleteClient('' @ toString (get_prop client ''client_id'') @ '')">'') row)\<close>

section \<open>More sample records\<close>

text \<open>A record that is not enabled.\<close>

definition globex :: obj where
  "globex = [(''admin_id'', JNum 2), (''client_id'', JNum 2), (''name'', JStr ''Globex''),
             (''email'', JStr ''g@x.com''), (''enabled'', JBool False),
             (''date_created'', JStr ''2024-02-01T00:00:00Z'')]"

text \<open>Records whose name holds markup: a row tag, and the text of the badge of an enabled record.\<close>

definition tagged :: obj where
  "tagged = [(''admin_id'', JNum 3), (''client_id'', JNum 3), (''name'', JStr ''<tr>''),
             (''email'', JStr ''t@x.com''), (''enabled'', JBool True),
             (''date_created'', JStr ''2024-03-01T00:00:00Z'')]"

definition disguised :: obj where
  "disguised = [(''admin_id'', JNum 4), (''client_id'', JNum 4),
                (''name'', JStr (badge ''bg-success'' ''Active'')),
                (''email'', JStr ''d@x.com''), (''enabled'', JBool False),
                (''date_created'', JStr ''2024-04-01T00:00:00Z'')]"

section \<open>Reading the effects\<close>

text \<open>The requests sent and the addresses navigated to, each in order.\<close>

fun requests :: "event list \<Rightarrow> http_request list" where
  "requests [] = []"
| "requests (Fetch req # es) = req # requests es"
| "requests (e # es) = requests es"

fun redirects :: "event list \<Rightarrow> string list" where
  "redirects [] = []"
| "redirects (SetLocationHref url # es) = url # redirects es"
| "redirects (e # es) = redirects es"

section \<open>Basic facts\<close>

lemma requests_append [simp]: "requests (xs @ ys) = requests xs @ requests ys"
  by (induction xs rule: requests.induct) simp_all

lemma redirects_append [simp]: "redirects (xs @ ys) = redirects xs @ redirects ys"
  by (induction xs rule: redirects.induct) simp_all

lemma split_on_nonempty: "split_on c s \<noteq> []"
  by (induction s) (auto split: list.splits)

lemma cookie_loop_absent:
  "key \<notin> set (map (\<lambda>cookie. case split_on CHR ''='' (trim cookie) of [] \<Rightarrow> [] | name # _ \<Rightarrow> name) cookies)
   \<Longrightarrow> cookie_loop key cookies = JNull"
  by (induction cookies) (auto split: list.splits)

lemma getAccessToken_absent:
  "''access_token'' \<notin> set (cookie_names c) \<Longrightarrow> getAccessToken c = JNull"
  unfolding getAccessToken_def cookie_names_def by (rule cookie_loop_absent)

lemma cookie_loop_cases:
  "cookie_loop key cookies = JNull \<or> cookie_loop key cookies = JUndefined
   \<or> (\<exists>v. cookie_loop key cookies = JStr v)"
  by (induction cookies) (auto split: list.splits)

lemma truthy_cookie_loop:
  "truthy (cookie_loop key cookies) \<Longrightarrow> cookie_loop key cookies = JStr (toString (cookie_loop key cookies))"
  using cookie_loop_cases [of key cookies] by auto

lemma JSON_stringify_refresh_token:
  "JSON_stringify [(''refresh_token'', JStr s)]
     = ''{'' @ json_quote ''refresh_token'' @ '':'' @ json_quote s @ ''}''"
  by (simp add: JSON_stringify_def)

subsection \<open>The paths of apiRequest\<close>

lemma events_sent [simp]: "events (sent req c w) = events w @ [Fetch req]"
  by (simp add: sent_def)

lemma cookie_sent [simp]: "cookie (sent req c w) = c"
  by (simp add: sent_def)

lemma events_set_location_href [simp]:
  "events (set_location_href url w) = events w @ [SetLocationHref url]"
  by (simp add: set_location_href_def)

lemma cookie_set_location_href [simp]: "cookie (set_location_href url w) = cookie w"
  by (simp add: set_location_href_def)

lemma events_showNotification [simp]:
  "events (showNotification message type w) = events w @ [ShowNotification message type]"
  by (simp add: showNotification_def)

lemma apiRequest_unauthenticated:
  assumes "\<not> truthy (getAccessToken (cookie w))" and "\<not> public opts"
  shows "apiRequest net endpoint opts w = (Inr None, set_location_href ''/login'' w)"
  using assms by (simp add: apiRequest_def)

lemma apiRequest_rejected:
  assumes "truthy (getAccessToken (cookie w)) \<or> public opts"
    and "net w (primary_request (getAccessToken (cookie w)) endpoint opts) = (Rejected, c1)"
  shows "apiRequest net endpoint opts w =
           (Inl NetworkError, sent (primary_request (getAccessToken (cookie w)) endpoint opts) c1 w)"
  using assms by (auto simp add: apiRequest_def fetch_def)

lemma apiRequest_passed_on:
  assumes "truthy (getAccessToken (cookie w)) \<or> public opts"
    and "net w (primary_request (getAccessToken (cookie w)) endpoint opts) = (Resolved resp, c1)"
    and "status resp \<noteq> 401 \<or> public opts"
  shows "apiRequest net endpoint opts w =
           (Inr (Some resp), sent (primary_request (getAccessToken (cookie w)) endpoint opts) c1 w)"
  using assms by (auto simp add: apiRequest_def fetch_def)

lemma apiRequest_401_no_refresh_token:
  assumes "truthy (getAccessToken (cookie w))" and "\<not> public opts"
    and "net w (primary_request (getAccessToken (cookie w)) endpoint opts) = (Resolved resp, c1)"
    and "status resp = 401" and "\<not> truthy (getRefreshToken c1)"
  shows "apiRequest net endpoint opts w =
           (Inr (Some resp),
            set_location_href ''/login''
              (sent (primary_request (getAccessToken (cookie w)) endpoint opts) c1 w))"
  using assms by (simp add: apiRequest_def fetch_def)

lemma apiRequest_401_refresh:
  assumes "truthy (getAccessToken (cookie w))" and "\<not> public opts"
    and "net w (primary_request (getAccessToken (cookie w)) endpoint opts) = (Resolved resp, c1)"
    and "status resp = 401" and "truthy (getRefreshToken c1)"
    and "net (sent (primary_request (getAccessToken (cookie w)) endpoint opts) c1 w)
             (refresh_request (getRefreshToken c1)) = (out, c2)"
  shows "apiRequest net endpoint opts w =
           (Inr (Some resp),
            set_location_href ''/login''
              (sent (refresh_request (getRefreshToken c1)) c2
                 (sent (primary_request (getAccessToken (cookie w)) endpoint opts) c1 w)))"
  using assms
  by (simp add: apiRequest_def fetch_def Let_def split: fetch_outcome.splits option.splits)

subsection \<open>The sample environments, evaluated\<close>

lemma token_logged_in: "getAccessToken ''access_token=A; refresh_token=R'' = JStr ''A''"
  by (simp add: getAccessToken_def trim_def is_space_def)

lemma refresh_token_logged_in: "getRefreshToken ''access_token=A; refresh_token=R'' = JStr ''R''"
  by (simp add: getRefreshToken_def trim_def is_space_def)

lemma token_anonymous: "getAccessToken ''theme=dark'' = JNull"
  by (simp add: getAccessToken_def trim_def is_space_def)

lemma primary_logged_in:
  "primary_request (JStr ''A'') ''/admins/'' no_options =
     \<lparr>req_url = ''http://127.0.0.1:8000/admins/'', req_method = None,
      req_headers = [(''Content-Type'', ''application/json''), (''Authorization'', ''Bearer A'')],
      req_body = None\<rparr>"
  by (simp add: primary_request_def no_options_def API_BASE_URL_def spread_def)

lemma refresh_request_R:
  \<open>refresh_request (JStr ''R'') =
     \<lparr>req_url = ''http://127.0.0.1:8000/refresh'', req_method = Some ''POST'',
      req_headers = [(''Content-Type'', ''application/json'')],
      req_body = Some ''{"refresh_token":"R"}''\<rparr>\<close>
  by (simp add: refresh_request_def API_BASE_URL_def JSON_stringify_def json_quote_def
                json_escape_char_def)

text \<open>With an access token and no refresh token, a 401 leads straight to the redirect.\<close>

lemma no_refresh_token_example:
  "apiRequest net_unauthorized ''/admins/'' no_options access_only
     = (Inr (Some \<lparr>status = 401, json_body = None\<rparr>),
        \<lparr>cookie = ''access_token=A'',
         events = [Fetch \<lparr>req_url = ''http://127.0.0.1:8000/admins/'', req_method = None,
                          req_headers = [(''Content-Type'', ''application/json''),
                                         (''Authorization'', ''Bearer A'')],
                          req_body = None\<rparr>,
                   SetLocationHref ''/login'']\<rparr>)"
  by code_simp

section \<open>The authenticated request\<close>

text \<open>
  Claim C3. A call that is not public, made while no access token is available
  (\<^verbatim>\<open>getAccessToken\<close> gives a falsy value, which it does in particular when
  the cookie string has no \<^verbatim>\<open>access_token\<close> cookie, see
  \<open>getAccessToken_absent\<close>), sends no HTTP request: its only effect is the
  assignment of \<^verbatim>\<open>/login\<close> to the location.
\<close>

theorem no_token_no_request:
  assumes "\<not> truthy (getAccessToken (cookie w))" and "\<not> public opts"
  shows "events (snd (apiRequest net endpoint opts w)) = events w @ [SetLocationHref ''/login'']
       \<and> requests (events (snd (apiRequest net endpoint opts w))) = requests (events w)
       \<and> redirects (events (snd (apiRequest net endpoint opts w))) = redirects (events w) @ [''/login'']"
  using assms by (simp add: apiRequest_unauthenticated)

theorem no_token_no_request_witness:
  "\<not> truthy (getAccessToken (cookie anonymous)) \<and> \<not> public no_options
   \<and> events (snd (apiRequest net_ok ''/admins/'' no_options anonymous)) = [SetLocationHref ''/login'']
   \<and> requests (events (snd (apiRequest net_ok ''/admins/'' no_options anonymous))) = []
   \<and> redirects (events (snd (apiRequest net_ok ''/admins/'' no_options anonymous))) = [''/login'']"
proof -
  have h1: "\<not> truthy (getAccessToken (cookie anonymous))"
    by (simp add: anonymous_def token_anonymous)
  have h2: "\<not> public no_options" by (simp add: no_options_def)
  show ?thesis
    using h1 h2 no_token_no_request [OF h1 h2, of net_ok "''/admins/''"]
    by (simp add: anonymous_def)
qed

text \<open>
  Claim C4. A public call never assigns the location, whatever the cookies hold
  and whatever the request's outcome is (a 401 included): its only effect is the
  one request.
\<close>

theorem public_call_never_redirects:
  assumes "public opts"
  shows "redirects (events (snd (apiRequest net endpoint opts w))) = redirects (events w)
       \<and> events (snd (apiRequest net endpoint opts w))
           = events w @ [Fetch (primary_request (getAccessToken (cookie w)) endpoint opts)]"
proof (cases "net w (primary_request (getAccessToken (cookie w)) endpoint opts)")
  case (Pair out c1)
  show ?thesis
  proof (cases out)
    case Rejected
    with Pair assms show ?thesis by (simp add: apiRequest_rejected)
  next
    case (Resolved resp)
    with Pair assms show ?thesis by (simp add: apiRequest_passed_on)
  qed
qed

theorem public_call_never_redirects_witness:
  "public public_options
   \<and> redirects (events (snd (apiRequest net_unauthorized ''/token'' public_options anonymous))) = []
   \<and> events (snd (apiRequest net_unauthorized ''/token'' public_options anonymous))
       = [Fetch \<lparr>req_url = ''http://127.0.0.1:8000/token'', req_method = Some ''POST'',
                 req_headers = [(''Content-Type'', ''application/json'')], req_body = None\<rparr>]"
proof -
  have h: "public public_options" by (simp add: public_options_def)
  show ?thesis
    using h public_call_never_redirects [OF h, of net_unauthorized "''/token''" anonymous]
    by (simp add: anonymous_def token_anonymous primary_request_def public_options_def
                  API_BASE_URL_def spread_def)
qed

text \<open>
  Claim C2. A call that is not public, was sent (an access token was there) and
  was answered with status 401 while a refresh token is available, has exactly
  these effects, in this order: the original request, one request
  \<^verbatim>\<open>POST /refresh\<close> whose JSON body holds the refresh token, and then the
  assignment of the location. There is no second refresh request, whatever the
  outcome of the first.
\<close>

theorem one_refresh_before_redirect:
  assumes "\<not> public opts" and "truthy (getAccessToken (cookie w))"
    and "net w (primary_request (getAccessToken (cookie w)) endpoint opts) = (Resolved resp, c1)"
    and "status resp = 401" and "truthy (getRefreshToken c1)"
  shows \<open>events (snd (apiRequest net endpoint opts w))
           = events w @ [Fetch (primary_request (getAccessToken (cookie w)) endpoint opts),
                         Fetch \<lparr>req_url = ''http://127.0.0.1:8000/refresh'',
                                req_method = Some ''POST'',
                                req_headers = [(''Content-Type'', ''application/json'')],
                                req_body = Some (''{"refresh_token":''
                                                 @ json_quote (toString (getRefreshToken c1)) @ ''}'')\<rparr>,
                         SetLocationHref ''/login'']\<close>
proof -
  let ?p = "primary_request (getAccessToken (cookie w)) endpoint opts"
  obtain out c2 where r: "net (sent ?p c1 w) (refresh_request (getRefreshToken c1)) = (out, c2)"
    by (cases "net (sent ?p c1 w) (refresh_request (getRefreshToken c1))")
  have s: "getRefreshToken c1 = JStr (toString (getRefreshToken c1))"
    using assms(5) unfolding getRefreshToken_def by (rule truthy_cookie_loop)
  have \<open>refresh_request (JStr (toString (getRefreshToken c1)))
          = \<lparr>req_url = ''http://127.0.0.1:8000/refresh'', req_method = Some ''POST'',
             req_headers = [(''Content-Type'', ''application/json'')],
             req_body = Some (''{"refresh_token":''
                              @ json_quote (toString (getRefreshToken c1)) @ ''}'')\<rparr>\<close>
    by (simp add: refresh_request_def API_BASE_URL_def JSON_stringify_refresh_token json_quote_def
                  json_escape_char_def)
  with s have "refresh_request (getRefreshToken c1) = \<dots>" by simp
  with apiRequest_401_refresh [where net = net, OF assms(2) assms(1) assms(3) assms(4) assms(5) r]
  show ?thesis by simp
qed

theorem one_refresh_before_redirect_witness:
  \<open>\<not> public no_options \<and> truthy (getAccessToken (cookie logged_in))
   \<and> net_unauthorized logged_in (primary_request (getAccessToken (cookie logged_in)) ''/admins/'' no_options)
       = (Resolved \<lparr>status = 401, json_body = None\<rparr>, ''access_token=A; refresh_token=R'')
   \<and> status \<lparr>status = 401, json_body = None\<rparr> = 401
   \<and> truthy (getRefreshToken ''access_token=A; refresh_token=R'')
   \<and> events (snd (apiRequest net_unauthorized ''/admins/'' no_options logged_in))
       = [Fetch \<lparr>req_url = ''http://127.0.0.1:8000/admins/'', req_method = None,
                 req_headers = [(''Content-Type'', ''application/json''),
                                (''Authorization'', ''Bearer A'')],
                 req_body = None\<rparr>,
          Fetch \<lparr>req_url = ''http://127.0.0.1:8000/refresh'', req_method = Some ''POST'',
                 req_headers = [(''Content-Type'', ''application/json'')],
                 req_body = Some ''{"refresh_token":"R"}''\<rparr>,
          SetLocationHref ''/login'']\<close>
proof -
  have h1: "\<not> public no_options" by (simp add: no_options_def)
  have h2: "truthy (getAccessToken (cookie logged_in))"
    by (simp add: logged_in_def token_logged_in)
  have h3: "net_unauthorized logged_in (primary_request (getAccessToken (cookie logged_in)) ''/admins/'' no_options)
       = (Resolved \<lparr>status = 401, json_body = None\<rparr>, ''access_token=A; refresh_token=R'')"
    by (simp add: net_unauthorized_def logged_in_def)
  have h4: "status \<lparr>status = 401, json_body = None\<rparr> = 401" by simp
  have h5: "truthy (getRefreshToken ''access_token=A; refresh_token=R'')"
    by (simp add: refresh_token_logged_in)
  show ?thesis
    using h1 h2 h3 h4 h5 one_refresh_before_redirect [where net = net_unauthorized, OF h1 h2 h3 h4 h5]
    by (simp add: logged_in_def token_logged_in refresh_token_logged_in primary_logged_in
                  json_quote_def json_escape_char_def)
qed

text \<open>
  Claim C10. In every branch that handles a 401 of a call that is not public (no
  refresh token; refresh request rejected, answered not ok, answered ok with or
  without a JSON body), the value returned is the original 401 response, and the
  last effect is the assignment of \<^verbatim>\<open>/login\<close> to the location. No request is
  sent after the refresh request, so nothing else could be returned.
\<close>

theorem unauthorized_returns_original_response:
  assumes "\<not> public opts" and "truthy (getAccessToken (cookie w))"
    and "net w (primary_request (getAccessToken (cookie w)) endpoint opts) = (Resolved resp, c1)"
    and "status resp = 401"
  shows "fst (apiRequest net endpoint opts w) = Inr (Some resp)
       \<and> events (snd (apiRequest net endpoint opts w))
           = events w @ Fetch (primary_request (getAccessToken (cookie w)) endpoint opts)
               # (if truthy (getRefreshToken c1) then [Fetch (refresh_request (getRefreshToken c1))] else [])
               @ [SetLocationHref ''/login'']"
proof (cases "truthy (getRefreshToken c1)")
  case False
  with apiRequest_401_no_refresh_token [where net = net, OF assms(2) assms(1) assms(3) assms(4)]
  show ?thesis by simp
next
  case True
  let ?p = "primary_request (getAccessToken (cookie w)) endpoint opts"
  obtain out c2 where r: "net (sent ?p c1 w) (refresh_request (getRefreshToken c1)) = (out, c2)"
    by (cases "net (sent ?p c1 w) (refresh_request (getRefreshToken c1))")
  from apiRequest_401_refresh [where net = net, OF assms(2) assms(1) assms(3) assms(4) True r] True
  show ?thesis by simp
qed

theorem unauthorized_returns_original_response_witness:
  \<open>\<not> public no_options \<and> truthy (getAccessToken (cookie logged_in))
   \<and> net_refresh_ok logged_in (primary_request (getAccessToken (cookie logged_in)) ''/admins/'' no_options)
       = (Resolved \<lparr>status = 401, json_body = None\<rparr>, ''access_token=A; refresh_token=R'')
   \<and> status \<lparr>status = 401, json_body = None\<rparr> = 401
   \<and> fst (apiRequest net_refresh_ok ''/admins/'' no_options logged_in)
       = Inr (Some \<lparr>status = 401, json_body = None\<rparr>)
   \<and> events (snd (apiRequest net_refresh_ok ''/admins/'' no_options logged_in))
       = [Fetch \<lparr>req_url = ''http://127.0.0.1:8000/admins/'', req_method = None,
                 req_headers = [(''Content-Type'', ''application/json''),
                                (''Authorization'', ''Bearer A'')],
                 req_body = None\<rparr>,
          Fetch \<lparr>req_url = ''http://127.0.0.1:8000/refresh'', req_method = Some ''POST'',
                 req_headers = [(''Content-Type'', ''application/json'')],
                 req_body = Some ''{"refresh_token":"R"}''\<rparr>,
          SetLocationHref ''/login'']\<close>
proof -
  have h1: "\<not> public no_options" by (simp add: no_options_def)
  have h2: "truthy (getAccessToken (cookie logged_in))"
    by (simp add: logged_in_def token_logged_in)
  have h3: "net_refresh_ok logged_in (primary_request (getAccessToken (cookie logged_in)) ''/admins/'' no_options)
       = (Resolved \<lparr>status = 401, json_body = None\<rparr>, ''access_token=A; refresh_token=R'')"
    by (simp add: net_refresh_ok_def logged_in_def token_logged_in primary_logged_in API_BASE_URL_def)
  have h4: "status \<lparr>status = 401, json_body = None\<rparr> = 401" by simp
  show ?thesis
    using h1 h2 h3 h4 unauthorized_returns_original_response [where net = net_refresh_ok, OF h1 h2 h3 h4]
    by (simp add: logged_in_def token_logged_in refresh_token_logged_in primary_logged_in
                  refresh_request_R)
qed

text \<open>
  Claim C5 says that a network failure of either request of a call that is not
  public is caught inside \<^verbatim>\<open>apiRequest\<close> and ends in a redirect. The first
  \<^verbatim>\<open>fetch\<close> is outside any \<^verbatim>\<open>try\<close>: with the network down, the exception
  reaches the caller and the location is not assigned.
\<close>

theorem primary_failure_counterexample:
  "\<not> public no_options \<and> truthy (getAccessToken (cookie logged_in))
   \<and> fst (apiRequest net_down ''/admins/'' no_options logged_in) = Inl NetworkError
   \<and> redirects (events (snd (apiRequest net_down ''/admins/'' no_options logged_in))) = []"
proof -
  have h: "truthy (getAccessToken (cookie logged_in)) \<or> public no_options"
    by (simp add: logged_in_def token_logged_in)
  have r: "net_down logged_in (primary_request (getAccessToken (cookie logged_in)) ''/admins/'' no_options)
             = (Rejected, cookie logged_in)"
    by (simp add: net_down_def)
  show ?thesis
    using apiRequest_rejected [where net = net_down, OF h r]
    by (simp add: logged_in_def token_logged_in no_options_def)
qed

text \<open>
  Claim C5, amended. For a call that is not public: a network failure of the
  original request is not caught by \<^verbatim>\<open>apiRequest\<close>, the exception goes to the
  caller and no redirect is made; a network failure of the refresh request is
  caught, the location is assigned \<^verbatim>\<open>/login\<close> and the original 401 response
  is returned.
\<close>

theorem network_failure_handling:
  "(\<not> public opts \<and> truthy (getAccessToken (cookie w))
      \<and> net w (primary_request (getAccessToken (cookie w)) endpoint opts) = (Rejected, c1)
     \<longrightarrow> fst (apiRequest net endpoint opts w) = Inl NetworkError
         \<and> redirects (events (snd (apiRequest net endpoint opts w))) = redirects (events w))
   \<and> (\<not> public opts \<and> truthy (getAccessToken (cookie w))
      \<and> net w (primary_request (getAccessToken (cookie w)) endpoint opts) = (Resolved resp, c1)
      \<and> status resp = 401 \<and> truthy (getRefreshToken c1)
      \<and> net (sent (primary_request (getAccessToken (cookie w)) endpoint opts) c1 w)
             (refresh_request (getRefreshToken c1)) = (Rejected, c2)
     \<longrightarrow> fst (apiRequest net endpoint opts w) = Inr (Some resp)
         \<and> redirects (events (snd (apiRequest net endpoint opts w)))
             = redirects (events w) @ [''/login''])"
proof (intro conjI impI)
  assume a: "\<not> public opts \<and> truthy (getAccessToken (cookie w))
      \<and> net w (primary_request (getAccessToken (cookie w)) endpoint opts) = (Rejected, c1)"
  then have "apiRequest net endpoint opts w
      = (Inl NetworkError, sent (primary_request (getAccessToken (cookie w)) endpoint opts) c1 w)"
    by (intro apiRequest_rejected) simp_all
  then show "fst (apiRequest net endpoint opts w) = Inl NetworkError"
    and "redirects (events (snd (apiRequest net endpoint opts w))) = redirects (events w)"
    by simp_all
next
  assume a: "\<not> public opts \<and> truthy (getAccessToken (cookie w))
      \<and> net w (primary_request (getAccessToken (cookie w)) endpoint opts) = (Resolved resp, c1)
      \<and> status resp = 401 \<and> truthy (getRefreshToken c1)
      \<and> net (sent (primary_request (getAccessToken (cookie w)) endpoint opts) c1 w)
             (refresh_request (getRefreshToken c1)) = (Rejected, c2)"
  then have "apiRequest net endpoint opts w
      = (Inr (Some resp),
         set_location_href ''/login''
           (sent (refresh_request (getRefreshToken c1)) c2
              (sent (primary_request (getAccessToken (cookie w)) endpoint opts) c1 w)))"
    by (intro apiRequest_401_refresh [where out = Rejected]) simp_all
  then show "fst (apiRequest net endpoint opts w) = Inr (Some resp)"
    and "redirects (events (snd (apiRequest net endpoint opts w))) = redirects (events w) @ [''/login'']"
    by simp_all
qed

theorem network_failure_handling_witness:
  "(\<not> public no_options \<and> truthy (getAccessToken (cookie logged_in))
    \<and> net_down logged_in (primary_request (getAccessToken (cookie logged_in)) ''/admins/'' no_options)
        = (Rejected, ''access_token=A; refresh_token=R'')
    \<and> fst (apiRequest net_down ''/admins/'' no_options logged_in) = Inl NetworkError
    \<and> redirects (events (snd (apiRequest net_down ''/admins/'' no_options logged_in))) = [])
   \<and> (net_refresh_down logged_in (primary_request (getAccessToken (cookie logged_in)) ''/admins/'' no_options)
        = (Resolved \<lparr>status = 401, json_body = None\<rparr>, ''access_token=A; refresh_token=R'')
    \<and> status \<lparr>status = 401, json_body = None\<rparr> = 401
    \<and> truthy (getRefreshToken ''access_token=A; refresh_token=R'')
    \<and> net_refresh_down
          (sent (primary_request (getAccessToken (cookie logged_in)) ''/admins/'' no_options)
                ''access_token=A; refresh_token=R'' logged_in)
          (refresh_request (getRefreshToken ''access_token=A; refresh_token=R''))
        = (Rejected, ''access_token=A; refresh_token=R'')
    \<and> fst (apiRequest net_refresh_down ''/admins/'' no_options logged_in)
        = Inr (Some \<lparr>status = 401, json_body = None\<rparr>)
    \<and> redirects (events (snd (apiRequest net_refresh_down ''/admins/'' no_options logged_in)))
        = [''/login''])"
proof -
  have h1: "\<not> public no_options" by (simp add: no_options_def)
  have h2: "truthy (getAccessToken (cookie logged_in))"
    by (simp add: logged_in_def token_logged_in)
  have h3: "net_down logged_in (primary_request (getAccessToken (cookie logged_in)) ''/admins/'' no_options)
        = (Rejected, ''access_token=A; refresh_token=R'')"
    by (simp add: net_down_def logged_in_def)
  have h4: "net_refresh_down logged_in (primary_request (getAccessToken (cookie logged_in)) ''/admins/'' no_options)
        = (Resolved \<lparr>status = 401, json_body = None\<rparr>, ''access_token=A; refresh_token=R'')"
    by (simp add: net_refresh_down_def logged_in_def token_logged_in primary_logged_in API_BASE_URL_def)
  have h5: "status \<lparr>status = 401, json_body = None\<rparr> = 401" by simp
  have h6: "truthy (getRefreshToken ''access_token=A; refresh_token=R'')"
    by (simp add: refresh_token_logged_in)
  have h7: "net_refresh_down
          (sent (primary_request (getAccessToken (cookie logged_in)) ''/admins/'' no_options)
                ''access_token=A; refresh_token=R'' logged_in)
          (refresh_request (getRefreshToken ''access_token=A; refresh_token=R''))
        = (Rejected, ''access_token=A; refresh_token=R'')"
    by (simp add: net_refresh_down_def refresh_request_def)
  have a: "fst (apiRequest net_down ''/admins/'' no_options logged_in) = Inl NetworkError
    \<and> redirects (events (snd (apiRequest net_down ''/admins/'' no_options logged_in))) = redirects (events logged_in)"
    using network_failure_handling [where net = net_down and w = logged_in and opts = no_options
        and endpoint = "''/admins/''" and ?c1.0 = "''access_token=A; refresh_token=R''"]
      h1 h2 h3 by blast
  have b: "fst (apiRequest net_refresh_down ''/admins/'' no_options logged_in)
        = Inr (Some \<lparr>status = 401, json_body = None\<rparr>)
    \<and> redirects (events (snd (apiRequest net_refresh_down ''/admins/'' no_options logged_in)))
        = redirects (events logged_in) @ [''/login'']"
    using network_failure_handling [where net = net_refresh_down and w = logged_in and opts = no_options
        and endpoint = "''/admins/''" and ?c1.0 = "''access_token=A; refresh_token=R''"
        and resp = "\<lparr>status = 401, json_body = None\<rparr>" and ?c2.0 = "''access_token=A; refresh_token=R''"]
      h1 h2 h4 h5 h6 h7 by blast
  have e: "redirects (events logged_in) = []" by (simp add: logged_in_def)
  show ?thesis using h1 h2 h3 h4 h5 h6 h7 a b e by simp
qed

text \<open>
  Claim C1 asks that after a successful refresh the original request be sent
  again with the new access token and that its outcome be returned. Evaluated on
  a server where that retry would be answered 200: \<^verbatim>\<open>apiRequest\<close> sends the
  original request and the refresh request, assigns the location and returns the
  401 response; the tokens of the refresh response are not used.
\<close>

theorem refresh_success_no_retry:
  \<open>fst (apiRequest net_refresh_ok ''/admins/'' no_options logged_in)
       = Inr (Some \<lparr>status = 401, json_body = None\<rparr>)
   \<and> events (snd (apiRequest net_refresh_ok ''/admins/'' no_options logged_in))
       = [Fetch \<lparr>req_url = ''http://127.0.0.1:8000/admins/'', req_method = None,
                 req_headers = [(''Content-Type'', ''application/json''),
                                (''Authorization'', ''Bearer A'')],
                 req_body = None\<rparr>,
          Fetch \<lparr>req_url = ''http://127.0.0.1:8000/refresh'', req_method = Some ''POST'',
                 req_headers = [(''Content-Type'', ''application/json'')],
                 req_body = Some ''{"refresh_token":"R"}''\<rparr>,
          SetLocationHref ''/login'']
   \<and> fst (net_refresh_ok (snd (apiRequest net_refresh_ok ''/admins/'' no_options logged_in))
             (refresh_request (JStr ''R'')))
       = Resolved \<lparr>status = 200,
                   json_body = Some (JsonObject [(''access_token'', JStr ''A2''),
                                                 (''refresh_token'', JStr ''R2'')])\<rparr>
   \<and> fst (net_refresh_ok (snd (apiRequest net_refresh_ok ''/admins/'' no_options logged_in))
             (primary_request (JStr ''A2'') ''/admins/'' no_options))
       = Resolved \<lparr>status = 200, json_body = Some (JsonArray [])\<rparr>\<close>
proof -
  have h1: "\<not> public no_options" by (simp add: no_options_def)
  have h2: "truthy (getAccessToken (cookie logged_in))"
    by (simp add: logged_in_def token_logged_in)
  have h3: "net_refresh_ok logged_in (primary_request (getAccessToken (cookie logged_in)) ''/admins/'' no_options)
       = (Resolved \<lparr>status = 401, json_body = None\<rparr>, ''access_token=A; refresh_token=R'')"
    by (simp add: net_refresh_ok_def logged_in_def token_logged_in primary_logged_in API_BASE_URL_def)
  have h4: "status \<lparr>status = 401, json_body = None\<rparr> = 401" by simp
  have h5: "truthy (getRefreshToken ''access_token=A; refresh_token=R'')"
    by (simp add: refresh_token_logged_in)
  obtain out c2 where r: "net_refresh_ok
        (sent (primary_request (getAccessToken (cookie logged_in)) ''/admins/'' no_options)
              ''access_token=A; refresh_token=R'' logged_in)
        (refresh_request (getRefreshToken ''access_token=A; refresh_token=R'')) = (out, c2)"
    by (cases "net_refresh_ok
        (sent (primary_request (getAccessToken (cookie logged_in)) ''/admins/'' no_options)
              ''access_token=A; refresh_token=R'' logged_in)
        (refresh_request (getRefreshToken ''access_token=A; refresh_token=R''))")
  have retry: "primary_request (JStr ''A2'') ''/admins/'' no_options =
     \<lparr>req_url = ''http://127.0.0.1:8000/admins/'', req_method = None,
      req_headers = [(''Content-Type'', ''application/json''), (''Authorization'', ''Bearer A2'')],
      req_body = None\<rparr>"
    by (simp add: primary_request_def no_options_def API_BASE_URL_def spread_def)
  show ?thesis
    using apiRequest_401_refresh [where net = net_refresh_ok, OF h2 h1 h3 h4 h5 r]
    by (simp add: logged_in_def token_logged_in refresh_token_logged_in primary_logged_in
                  refresh_request_R retry net_refresh_ok_def API_BASE_URL_def)
qed

section \<open>Deleting records\<close>

lemma events_confirmDialog:
  "events (snd (confirmDialog a message confirmText cancelText w))
     = events w @ [ConfirmDialog message confirmText cancelText]"
  by (simp add: confirmDialog_def)

lemma apiRequest_grows: "prefix (events w) (events (snd (apiRequest net endpoint opts w)))"
  by (auto simp add: apiRequest_def fetch_def Let_def
           split: prod.splits fetch_outcome.splits option.splits)

lemma apiRequest_sends_first:
  assumes "truthy (getAccessToken (cookie w)) \<or> public opts"
  shows "prefix (events w @ [Fetch (primary_request (getAccessToken (cookie w)) endpoint opts)])
                (events (snd (apiRequest net endpoint opts w)))"
  using assms
  by (auto simp add: apiRequest_def fetch_def Let_def
           split: prod.splits fetch_outcome.splits option.splits)

lemma displayAdmins_grows: "prefix (events w) (events (snd (displayAdmins formatDate admins w)))"
  by (auto simp add: displayAdmins_def set_innerHTML_def split: json.splits)

lemma displayClients_grows: "prefix (events w) (events (snd (displayClients formatDate clients w)))"
  by (auto simp add: displayClients_def set_innerHTML_def split: json.splits)

lemma displayAdmins_result_grows:
  "displayAdmins formatDate admins w = (r, w2) \<Longrightarrow> prefix (events w) (events w2)"
  using displayAdmins_grows [of w formatDate admins] by simp

lemma displayClients_result_grows:
  "displayClients formatDate clients w = (r, w2) \<Longrightarrow> prefix (events w) (events w2)"
  using displayClients_grows [of w formatDate clients] by simp

lemma loadAdmins_grows: "prefix (events w) (events (loadAdmins net formatDate w))"
proof -
  obtain r w1 where a: "apiRequest net ''/admins/'' no_options w = (r, w1)"
    by (cases "apiRequest net ''/admins/'' no_options w")
  have p1: "prefix (events w) (events w1)"
    using apiRequest_grows [of w net "''/admins/''" no_options] a by simp
  have p2: "prefix (events w1) (events (loadAdmins net formatDate w))"
    using a
    by (auto simp add: loadAdmins_def split: sum.splits option.splits prod.splits
             dest: displayAdmins_result_grows)
  from p1 p2 show ?thesis by (rule prefix_order.trans)
qed

lemma loadClients_grows: "prefix (events w) (events (loadClients net formatDate w))"
proof -
  obtain r w1 where a: "apiRequest net ''/clients/'' no_options w = (r, w1)"
    by (cases "apiRequest net ''/clients/'' no_options w")
  have p1: "prefix (events w) (events w1)"
    using apiRequest_grows [of w net "''/clients/''" no_options] a by simp
  have p2: "prefix (events w1) (events (loadClients net formatDate w))"
    using a
    by (auto simp add: loadClients_def split: sum.splits option.splits prod.splits
             dest: displayClients_result_grows)
  from p1 p2 show ?thesis by (rule prefix_order.trans)
qed

text \<open>
  Claim C6. \<^verbatim>\<open>deleteAdmin\<close> and \<^verbatim>\<open>deleteClient\<close> send a request only when the
  dialog is answered with Delete: with any other outcome no request is added to
  the ones sent before. When the user cancels, the call returns and the opening
  of the dialog is its only effect.
\<close>

theorem delete_only_after_confirmation:
  "(a \<noteq> Confirmed \<longrightarrow>
       requests (events (snd (deleteAdmin net formatDate a adminId w))) = requests (events w)
     \<and> requests (events (snd (deleteClient net formatDate a clientId w))) = requests (events w))
   \<and> deleteAdmin net formatDate Cancelled adminId w
       = (Some (), w\<lparr>events := events w @
            [ConfirmDialog ''Are you sure you want to delete this admin? This action cannot be undone.''
               ''Delete'' ''Cancel'']\<rparr>)
   \<and> deleteClient net formatDate Cancelled clientId w
       = (Some (), w\<lparr>events := events w @
            [ConfirmDialog ''Are you sure you want to delete this client?'' ''Delete'' ''Cancel'']\<rparr>)"
proof -
  have not_confirmed: "requests (events (snd (deleteAdmin net formatDate a adminId w))) = requests (events w)
      \<and> requests (events (snd (deleteClient net formatDate a clientId w))) = requests (events w)"
    if "a \<noteq> Confirmed"
  proof (cases a)
    case Confirmed
    with that show ?thesis by simp
  next
    case Cancelled
    then show ?thesis by (simp add: deleteAdmin_def deleteClient_def confirmDialog_def)
  next
    case Unanswered
    then show ?thesis by (simp add: deleteAdmin_def deleteClient_def confirmDialog_def)
  qed
  have cancelled_admin: "deleteAdmin net formatDate Cancelled adminId w
       = (Some (), w\<lparr>events := events w @
            [ConfirmDialog ''Are you sure you want to delete this admin? This action cannot be undone.''
               ''Delete'' ''Cancel'']\<rparr>)"
    by (simp add: deleteAdmin_def confirmDialog_def)
  have cancelled_client: "deleteClient net formatDate Cancelled clientId w
       = (Some (), w\<lparr>events := events w @
            [ConfirmDialog ''Are you sure you want to delete this client?'' ''Delete'' ''Cancel'']\<rparr>)"
    by (simp add: deleteClient_def confirmDialog_def)
  from not_confirmed cancelled_admin cancelled_client show ?thesis by blast
qed

theorem delete_only_after_confirmation_witness:
  "Cancelled \<noteq> Confirmed
   \<and> requests (events (snd (deleteAdmin net_ok iso_date Cancelled (JNum 7) logged_in))) = []
   \<and> requests (events (snd (deleteClient net_ok iso_date Cancelled (JNum 7) logged_in))) = []
   \<and> deleteAdmin net_ok iso_date Cancelled (JNum 7) logged_in
       = (Some (), \<lparr>cookie = ''access_token=A; refresh_token=R'', events =
            [ConfirmDialog ''Are you sure you want to delete this admin? This action cannot be undone.''
               ''Delete'' ''Cancel'']\<rparr>)
   \<and> deleteClient net_ok iso_date Cancelled (JNum 7) logged_in
       = (Some (), \<lparr>cookie = ''access_token=A; refresh_token=R'', events =
            [ConfirmDialog ''Are you sure you want to delete this client?'' ''Delete'' ''Cancel'']\<rparr>)"
  using delete_only_after_confirmation [of Cancelled net_ok iso_date "JNum 7" logged_in "JNum 7"]
  by (simp add: logged_in_def)

lemma deleteAdmin_confirmed_sends:
  assumes "truthy (getAccessToken (cookie w))"
  shows "Fetch (primary_request (getAccessToken (cookie w)) (''/admins/'' @ toString adminId)
                  (no_options\<lparr>http_method := Some ''DELETE''\<rparr>))
         \<in> set (events (snd (deleteAdmin net formatDate Confirmed adminId w)))"
proof -
  let ?w0 = "w\<lparr>events := events w @
       [ConfirmDialog ''Are you sure you want to delete this admin? This action cannot be undone.''
          ''Delete'' ''Cancel'']\<rparr>"
  let ?opts = "no_options\<lparr>http_method := Some ''DELETE''\<rparr>"
  let ?req = "primary_request (getAccessToken (cookie w)) (''/admins/'' @ toString adminId) ?opts"
  obtain r w1 where a: "apiRequest net (''/admins/'' @ toString adminId) ?opts ?w0 = (r, w1)"
    by (cases "apiRequest net (''/admins/'' @ toString adminId) ?opts ?w0")
  have "prefix (events ?w0 @ [Fetch ?req]) (events w1)"
    using apiRequest_sends_first [of ?w0 ?opts "''/admins/'' @ toString adminId" net] assms a
    by simp
  then have m: "Fetch ?req \<in> set (events w1)"
    by (auto simp add: prefix_def)
  have "prefix (events w1) (events (snd (deleteAdmin net formatDate Confirmed adminId w)))"
    using a loadAdmins_grows [of "showNotification ''Admin deleted successfully'' ''success'' w1"]
    by (auto simp add: deleteAdmin_def confirmDialog_def prefix_def
             split: sum.splits option.splits)
  with m show ?thesis by (auto simp add: prefix_def)
qed

lemma deleteClient_confirmed_sends:
  assumes "truthy (getAccessToken (cookie w))"
  shows "Fetch (primary_request (getAccessToken (cookie w)) (''/clients/'' @ toString clientId)
                  (no_options\<lparr>http_method := Some ''DELETE''\<rparr>))
         \<in> set (events (snd (deleteClient net formatDate Confirmed clientId w)))"
proof -
  let ?w0 = "w\<lparr>events := events w @
       [ConfirmDialog ''Are you sure you want to delete this client?'' ''Delete'' ''Cancel'']\<rparr>"
  let ?opts = "no_options\<lparr>http_method := Some ''DELETE''\<rparr>"
  let ?req = "primary_request (getAccessToken (cookie w)) (''/clients/'' @ toString clientId) ?opts"
  obtain r w1 where a: "apiRequest net (''/clients/'' @ toString clientId) ?opts ?w0 = (r, w1)"
    by (cases "apiRequest net (''/clients/'' @ toString clientId) ?opts ?w0")
  have "prefix (events ?w0 @ [Fetch ?req]) (events w1)"
    using apiRequest_sends_first [of ?w0 ?opts "''/clients/'' @ toString clientId" net] assms a
    by simp
  then have m: "Fetch ?req \<in> set (events w1)"
    by (auto simp add: prefix_def)
  have "prefix (events w1) (events (snd (deleteClient net formatDate Confirmed clientId w)))"
    using a loadClients_grows [of "showNotification ''Client deleted successfully'' ''success'' w1"]
    by (auto simp add: deleteClient_def confirmDialog_def prefix_def
             split: sum.splits option.splits)
  with m show ?thesis by (auto simp add: prefix_def)
qed

section \<open>Logout in the shell script\<close>

text \<open>
  Claim C8. When \<^verbatim>\<open>logout\<close> runs with a refresh token present, both token
  variables are empty afterwards, whatever \<^verbatim>\<open>curl\<close> printed: a status 200, any
  other status, or text that is no status at all.
\<close>

theorem logout_clears_tokens:
  assumes "REFRESH_TOKEN sh \<noteq> []"
  shows "ACCESS_TOKEN (snd (logout curl sh)) = [] \<and> REFRESH_TOKEN (snd (logout curl sh)) = []"
  using assms by (simp add: logout_def emit_def Let_def)

theorem logout_clears_tokens_witness:
  "REFRESH_TOKEN shell_logged_in \<noteq> []
   \<and> ACCESS_TOKEN (snd (logout curl_500 shell_logged_in)) = []
   \<and> REFRESH_TOKEN (snd (logout curl_500 shell_logged_in)) = []"
proof -
  have h: "REFRESH_TOKEN shell_logged_in \<noteq> []" by (simp add: shell_logged_in_def)
  show ?thesis using h logout_clears_tokens [OF h, of curl_500] by simp
qed

lemma logout_500:
  "test_eq (cut_field 2 (echo_text (strip_newlines (curl_500 c)))) 200 = False"
  by code_simp

lemma logout_200:
  "test_eq (cut_field 2 (echo_text (strip_newlines (curl_200 c)))) 200 = True"
  by code_simp

lemma logout_curl_failure_example:
  \<open>logout curl_fails shell_logged_in
     = (0, \<lparr>ACCESS_TOKEN = [], REFRESH_TOKEN = [],
            terminal = [Print_header ''4. LOGOUT'',
                        Curl \<lparr>curl_method = ''POST'', curl_url = ''http://localhost:8000/logout'',
                              curl_headers = [''Content-Type: application/json'',
                                              ''Authorization: Bearer A''],
                              curl_data = ''{"refresh_token": "R"}''\<rparr>,
                        Echo ''Response: '', Echo ''Status Code: 000'',
                        Print_error ''Logout failed, but clearing local tokens anyway'']\<rparr>)\<close>
  by code_simp

lemma logout_without_token_example:
  "logout curl_200 \<lparr>ACCESS_TOKEN = ''A'', REFRESH_TOKEN = [], terminal = []\<rparr>
     = (1, \<lparr>ACCESS_TOKEN = ''A'', REFRESH_TOKEN = [],
            terminal = [Print_header ''4. LOGOUT'',
                        Print_error ''No refresh token available. Already logged out?'']\<rparr>)"
  by code_simp

section \<open>Callers without a token\<close>

text \<open>
  Claim C9. Without an access token, a call that is not public returns
  \<^verbatim>\<open>undefined\<close> after assigning the location. The callers read \<^verbatim>\<open>.ok\<close> on
  it, which raises a TypeError: \<^verbatim>\<open>loadAdmins\<close> and \<^verbatim>\<open>loadClients\<close> catch it
  and show the notification \<^verbatim>\<open>Network error\<close>; \<^verbatim>\<open>getAdmin\<close> and
  \<^verbatim>\<open>getClient\<close> let it through.
\<close>

theorem no_token_gives_undefined:
  assumes "\<not> truthy (getAccessToken (cookie w))" and "\<not> public opts"
  shows "apiRequest net endpoint opts w = (Inr None, set_location_href ''/login'' w)
       \<and> loadAdmins net formatDate w
           = showNotification ''Network error'' ''danger'' (set_location_href ''/login'' w)
       \<and> loadClients net formatDate w
           = showNotification ''Network error'' ''danger'' (set_location_href ''/login'' w)
       \<and> getAdmin net adminId w = (Inl TypeError, set_location_href ''/login'' w)
       \<and> getClient net clientId w = (Inl TypeError, set_location_href ''/login'' w)"
proof -
  have n: "\<not> public no_options" by (simp add: no_options_def)
  have e: "apiRequest net ep no_options w = (Inr None, set_location_href ''/login'' w)" for ep
    using assms(1) n by (rule apiRequest_unauthenticated)
  show ?thesis
    using assms by (simp add: apiRequest_unauthenticated e loadAdmins_def loadClients_def
                              getAdmin_def getClient_def)
qed

theorem no_token_gives_undefined_witness:
  "\<not> truthy (getAccessToken (cookie anonymous)) \<and> \<not> public no_options
   \<and> fst (apiRequest net_ok ''/admins/'' no_options anonymous) = Inr None
   \<and> events (loadAdmins net_ok iso_date anonymous)
       = [SetLocationHref ''/login'', ShowNotification ''Network error'' ''danger'']
   \<and> events (loadClients net_ok iso_date anonymous)
       = [SetLocationHref ''/login'', ShowNotification ''Network error'' ''danger'']
   \<and> fst (getAdmin net_ok (JNum 7) anonymous) = Inl TypeError
   \<and> fst (getClient net_ok (JNum 7) anonymous) = Inl TypeError"
proof -
  have h1: "\<not> truthy (getAccessToken (cookie anonymous))"
    by (simp add: anonymous_def token_anonymous)
  have h2: "\<not> public no_options" by (simp add: no_options_def)
  show ?thesis
    using h1 h2 no_token_gives_undefined [OF h1 h2, of net_ok "''/admins/''" iso_date "JNum 7" "JNum 7"]
    by (simp add: anonymous_def)
qed

section \<open>Rendered tables\<close>

subsection \<open>Counting occurrences across segments\<close>

lemma prefix_append_no_straddle:
  assumes "\<not> strict_prefix xs pat"
  shows "prefix pat (xs @ b) = prefix pat xs"
proof
  assume "prefix pat (xs @ b)"
  then consider "prefix pat xs" | us where "pat = xs @ us" "prefix us b"
    by (auto simp add: prefix_append)
  then show "prefix pat xs"
  proof cases
    case 1
    then show ?thesis .
  next
    case 2
    with assms show ?thesis by (cases us) (auto simp add: strict_prefix_def)
  qed
next
  assume "prefix pat xs"
  then show "prefix pat (xs @ b)" by (rule prefix_prefix)
qed

lemma occurrences_append:
  "\<not> straddles pat a \<Longrightarrow> pat \<noteq> []
   \<Longrightarrow> occurrences pat (a @ b) = occurrences pat a + occurrences pat b"
proof (induction a)
  case Nil
  then show ?case by simp
next
  case (Cons c s)
  then have "prefix pat ((c # s) @ b) = prefix pat (c # s)"
    by (intro prefix_append_no_straddle) simp
  with Cons show ?case by simp
qed

lemma occurrences_concat:
  "list_all (\<lambda>g. \<not> straddles pat g) segs \<Longrightarrow> pat \<noteq> []
   \<Longrightarrow> occurrences pat (concat segs @ rest)
       = sum_list (map (occurrences pat) segs) + occurrences pat rest"
proof (induction segs)
  case Nil
  then show ?case by simp
next
  case (Cons g segs)
  then show ?case by (simp add: occurrences_append)
qed

lemma plain_no_straddle: "plain f \<Longrightarrow> prefix ''<'' pat \<Longrightarrow> \<not> straddles pat f"
  by (induction f) (auto simp add: plain_def strict_prefix_def prefix_def)

lemma plain_no_occurrence: "plain f \<Longrightarrow> prefix ''<'' pat \<Longrightarrow> occurrences pat f = 0"
  by (induction f) (auto simp add: plain_def prefix_def)

lemma count_before_rest: "k = n \<Longrightarrow> k + r = n + (r::nat)"
  by simp

lemma occurrences_positive: "(0 < occurrences pat s) = sublist pat s"
  by (induction s) (auto simp add: sublist_Cons_right)

subsection \<open>Finding a text in a row\<close>

lemma framed_sublist: "framed a f b segs \<Longrightarrow> sublist (a @ f @ b) (concat segs)"
proof (induction a f b segs rule: framed.induct)
  case (1 a f b g1 x g2 rest)
  show ?case
  proof (cases "x = f \<and> prefix (rev a) (rev g1) \<and> prefix b g2")
    case True
    then have "suffix a g1" by (simp add: suffix_to_prefix)
    then obtain p where p: "g1 = p @ a" by (auto simp add: suffix_def)
    from True obtain q where q: "g2 = b @ q" by (auto simp add: prefix_def)
    from True p q have "concat (g1 # x # g2 # rest) = p @ (a @ f @ b) @ (q @ concat rest)"
      by simp
    then show ?thesis by (metis sublist_appendI)
  next
    case False
    with 1 have "sublist (a @ f @ b) (concat (x # g2 # rest))" by simp
    then have "sublist (a @ f @ b) (g1 @ concat (x # g2 # rest))"
      by (metis sublist_append)
    then show ?thesis by simp
  qed
qed simp_all

lemma sublist_nth_segment:
  assumes "i < length segs" and "sublist t (segs ! i)"
  shows "sublist t (concat segs)"
proof -
  have "concat segs = concat (take i segs) @ segs ! i @ concat (drop (Suc i) segs)"
    using assms(1) by (metis append_Cons append_Nil concat.simps(2) concat_append id_take_nth_drop)
  moreover obtain p q where "segs ! i = p @ t @ q"
    using assms(2) by (auto simp add: sublist_def)
  ultimately have "concat segs = (concat (take i segs) @ p) @ t @ (q @ concat (drop (Suc i) segs))"
    by simp
  then show ?thesis by (metis sublist_appendI)
qed

lemma join_empty_separator: "join [] xs = concat xs"
  by (induction "[] :: string" xs rule: join.induct) simp_all

subsection \<open>The rows of the admins table\<close>

lemma adminRow_shows_id:
  \<open>sublist (''<td>'' @ toString (get_prop a ''admin_id'') @ ''</td>'') (adminRow formatDate a)\<close>
  unfolding adminRow_def by (rule framed_sublist) (simp add: nl_def)

lemma adminRow_shows_email:
  \<open>sublist (''<td>'' @ toString (get_prop a ''email'') @ ''</td>'') (adminRow formatDate a)\<close>
  unfolding adminRow_def by (rule framed_sublist) (simp add: nl_def)

lemma adminRow_shows_date:
  \<open>sublist (''<td>'' @ formatDate (get_prop a ''date_created'') @ ''</td>'') (adminRow formatDate a)\<close>
  unfolding adminRow_def by (rule framed_sublist) (simp add: nl_def)

lemma adminRow_shows_name:
  \<open>sublist (''<strong>'' @ toString (get_prop a ''name'') @ ''</strong>'') (adminRow formatDate a)\<close>
  unfolding adminRow_def by (rule framed_sublist) (simp add: nl_def)

lemma adminRow_shows_edit:
  \<open>sublist (''<a href="/admins/edit/'' @ toString (get_prop a ''admin_id'')
             @ ''" class="btn btn-outline-primary">'') (adminRow formatDate a)\<close>
  unfolding adminRow_def by (rule framed_sublist) (simp add: nl_def)

lemma adminRow_shows_delete:
  \<open>sublist (''onclick="deleteAdmin('' @ toString (get_prop a ''admin_id'') @ '')">'')
           (adminRow formatDate a)\<close>
  unfolding adminRow_def by (rule framed_sublist) (simp add: nl_def)

lemma adminRow_shows_badge:
  "sublist (if truthy (get_prop a ''enabled'') then badge ''bg-success'' ''Active''
            else badge ''bg-danger'' ''Inactive'') (adminRow formatDate a)"
proof (cases "truthy (get_prop a ''enabled'')")
  case True
  note c0 = True
  show ?thesis
    unfolding adminRow_def
    apply (rule sublist_nth_segment [where i = 6])
     apply simp
    apply (simp only: c0 if_True if_False)
    apply code_simp
    done
next
  case False
  note c0 = False
  show ?thesis
    unfolding adminRow_def
    apply (rule sublist_nth_segment [where i = 6])
     apply simp
    apply (simp only: c0 if_True if_False)
    apply code_simp
    done
qed

lemma adminRow_opens_once:
  assumes "list_all plain (admin_texts formatDate a)"
  shows "occurrences (''<tr>'') (adminRow formatDate a @ rest)
           = 1 + occurrences (''<tr>'') rest"
proof -
  have lt: "prefix ''<'' (''<tr>'')" by code_simp
  from assms have p:
    "plain (toString (get_prop a ''admin_id''))"
    "plain (toString (get_prop a ''name''))"
    "plain (toString (get_prop a ''email''))"
    "plain (formatDate (get_prop a ''date_created''))"
    by (simp_all add: admin_texts_def)
  note ns = p [THEN plain_no_straddle, OF lt]
  note no = p [THEN plain_no_occurrence, OF lt]
  show ?thesis
  proof (cases "truthy (get_prop a ''enabled'')")
    case True
    note c0 = True
    show ?thesis
      unfolding adminRow_def
      apply (subst occurrences_concat)
        apply (simp only: c0 if_True if_False list_all_Cons_iff list_all_Nil_iff ns simp_thms)
        apply code_simp
       apply code_simp
      apply (simp only: c0 if_True if_False list.map sum_list.Cons sum_list.Nil no)
      apply (rule count_before_rest)
      apply code_simp
      done
  next
    case False
    note c0 = False
    show ?thesis
      unfolding adminRow_def
      apply (subst occurrences_concat)
        apply (simp only: c0 if_True if_False list_all_Cons_iff list_all_Nil_iff ns simp_thms)
        apply code_simp
       apply code_simp
      apply (simp only: c0 if_True if_False list.map sum_list.Cons sum_list.Nil no)
      apply (rule count_before_rest)
      apply code_simp
      done
  qed
qed

lemma adminRow_closes_once:
  assumes "list_all plain (admin_texts formatDate a)"
  shows "occurrences (''</tr>'') (adminRow formatDate a @ rest)
           = 1 + occurrences (''</tr>'') rest"
proof -
  have lt: "prefix ''<'' (''</tr>'')" by code_simp
  from assms have p:
    "plain (toString (get_prop a ''admin_id''))"
    "plain (toString (get_prop a ''name''))"
    "plain (toString (get_prop a ''email''))"
    "plain (formatDate (get_prop a ''date_created''))"
    by (simp_all add: admin_texts_def)
  note ns = p [THEN plain_no_straddle, OF lt]
  note no = p [THEN plain_no_occurrence, OF lt]
  show ?thesis
  proof (cases "truthy (get_prop a ''enabled'')")
    case True
    note c0 = True
    show ?thesis
      unfolding adminRow_def
      apply (subst occurrences_concat)
        apply (simp only: c0 if_True if_False list_all_Cons_iff list_all_Nil_iff ns simp_thms)
        apply code_simp
       apply code_simp
      apply (simp only: c0 if_True if_False list.map sum_list.Cons sum_list.Nil no)
      apply (rule count_before_rest)
      apply code_simp
      done
  next
    case False
    note c0 = False
    show ?thesis
      unfolding adminRow_def
      apply (subst occurrences_concat)
        apply (simp only: c0 if_True if_False list_all_Cons_iff list_all_Nil_iff ns simp_thms)
        apply code_simp
       apply code_simp
      apply (simp only: c0 if_True if_False list.map sum_list.Cons sum_list.Nil no)
      apply (rule count_before_rest)
      apply code_simp
      done
  qed
qed

lemma adminRow_cells:
  assumes "list_all plain (admin_texts formatDate a)"
  shows "occurrences (''<td>'') (adminRow formatDate a @ rest)
           = 6 + occurrences (''<td>'') rest"
proof -
  have lt: "prefix ''<'' (''<td>'')" by code_simp
  from assms have p:
    "plain (toString (get_prop a ''admin_id''))"
    "plain (toString (get_prop a ''name''))"
    "plain (toString (get_prop a ''email''))"
    "plain (formatDate (get_prop a ''date_created''))"
    by (simp_all add: admin_texts_def)
  note ns = p [THEN plain_no_straddle, OF lt]
  note no = p [THEN plain_no_occurrence, OF lt]
  show ?thesis
  proof (cases "truthy (get_prop a ''enabled'')")
    case True
    note c0 = True
    show ?thesis
      unfolding adminRow_def
      apply (subst occurrences_concat)
        apply (simp only: c0 if_True if_False list_all_Cons_iff list_all_Nil_iff ns simp_thms)
        apply code_simp
       apply code_simp
      apply (simp only: c0 if_True if_False list.map sum_list.Cons sum_list.Nil no)
      apply (rule count_before_rest)
      apply code_simp
      done
  next
    case False
    note c0 = False
    show ?thesis
      unfolding adminRow_def
      apply (subst occurrences_concat)
        apply (simp only: c0 if_True if_False list_all_Cons_iff list_all_Nil_iff ns simp_thms)
        apply code_simp
       apply code_simp
      apply (simp only: c0 if_True if_False list.map sum_list.Cons sum_list.Nil no)
      apply (rule count_before_rest)
      apply code_simp
      done
  qed
qed

lemma adminRow_active:
  assumes "list_all plain (admin_texts formatDate a)"
  shows "occurrences (badge ''bg-success'' ''Active'') (adminRow formatDate a @ rest)
           = (if truthy (get_prop a ''enabled'') then 1 else 0) + occurrences (badge ''bg-success'' ''Active'') rest"
proof -
  have lt: "prefix ''<'' (badge ''bg-success'' ''Active'')" by code_simp
  from assms have p:
    "plain (toString (get_prop a ''admin_id''))"
    "plain (toString (get_prop a ''name''))"
    "plain (toString (get_prop a ''email''))"
    "plain (formatDate (get_prop a ''date_created''))"
    by (simp_all add: admin_texts_def)
  note ns = p [THEN plain_no_straddle, OF lt]
  note no = p [THEN plain_no_occurrence, OF lt]
  show ?thesis
  proof (cases "truthy (get_prop a ''enabled'')")
    case True
    note c0 = True
    show ?thesis
      unfolding adminRow_def
      apply (subst occurrences_concat)
        apply (simp only: c0 if_True if_False list_all_Cons_iff list_all_Nil_iff ns simp_thms)
        apply code_simp
       apply code_simp
      apply (simp only: c0 if_True if_False list.map sum_list.Cons sum_list.Nil no)
      apply (rule count_before_rest)
      apply code_simp
      done
  next
    case False
    note c0 = False
    show ?thesis
      unfolding adminRow_def
      apply (subst occurrences_concat)
        apply (simp only: c0 if_True if_False list_all_Cons_iff list_all_Nil_iff ns simp_thms)
        apply code_simp
       apply code_simp
      apply (simp only: c0 if_True if_False list.map sum_list.Cons sum_list.Nil no)
      apply (rule count_before_rest)
      apply code_simp
      done
  qed
qed

lemma adminRow_inactive:
  assumes "list_all plain (admin_texts formatDate a)"
  shows "occurrences (badge ''bg-danger'' ''Inactive'') (adminRow formatDate a @ rest)
           = (if truthy (get_prop a ''enabled'') then 0 else 1) + occurrences (badge ''bg-danger'' ''Inactive'') rest"
proof -
  have lt: "prefix ''<'' (badge ''bg-danger'' ''Inactive'')" by code_simp
  from assms have p:
    "plain (toString (get_prop a ''admin_id''))"
    "plain (toString (get_prop a ''name''))"
    "plain (toString (get_prop a ''email''))"
    "plain (formatDate (get_prop a ''date_created''))"
    by (simp_all add: admin_texts_def)
  note ns = p [THEN plain_no_straddle, OF lt]
  note no = p [THEN plain_no_occurrence, OF lt]
  show ?thesis
  proof (cases "truthy (get_prop a ''enabled'')")
    case True
    note c0 = True
    show ?thesis
      unfolding adminRow_def
      apply (subst occurrences_concat)
        apply (simp only: c0 if_True if_False list_all_Cons_iff list_all_Nil_iff ns simp_thms)
        apply code_simp
       apply code_simp
      apply (simp only: c0 if_True if_False list.map sum_list.Cons sum_list.Nil no)
      apply (rule count_before_rest)
      apply code_simp
      done
  next
    case False
    note c0 = False
    show ?thesis
      unfolding adminRow_def
      apply (subst occurrences_concat)
        apply (simp only: c0 if_True if_False list_all_Cons_iff list_all_Nil_iff ns simp_thms)
        apply code_simp
       apply code_simp
      apply (simp only: c0 if_True if_False list.map sum_list.Cons sum_list.Nil no)
      apply (rule count_before_rest)
      apply code_simp
      done
  qed
qed

subsection \<open>The rows of the clients table\<close>

lemma clientRow_shows_id:
  \<open>sublist (''<td>'' @ toString (get_prop c ''client_id'') @ ''</td>'') (clientRow formatDate c)\<close>
  unfolding clientRow_def by (rule framed_sublist) (simp add: nl_def)

lemma clientRow_shows_email:
  \<open>sublist (''<td>'' @ toString (get_prop c ''email'') @ ''</td>'') (clientRow formatDate c)\<close>
  unfolding clientRow_def by (rule framed_sublist) (simp add: nl_def)

lemma clientRow_shows_phones:
  \<open>sublist (''<td>'' @ toString (js_or (get_prop c ''phones'') (JStr ''-'')) @ ''</td>'') (clientRow formatDate c)\<close>
  unfolding clientRow_def by (rule framed_sublist) (simp add: nl_def)

lemma clientRow_shows_admin:
  \<open>sublist (''<td>'' @ toString (js_or (get_prop c ''admin_id'') (JStr ''-'')) @ ''</td>'') (clientRow formatDate c)\<close>
  unfolding clientRow_def by (rule framed_sublist) (simp add: nl_def)

lemma clientRow_shows_date:
  \<open>sublist (''<td>'' @ formatDate (get_prop c ''date_created'') @ ''</td>'') (clientRow formatDate c)\<close>
  unfolding clientRow_def by (rule framed_sublist) (simp add: nl_def)

lemma clientRow_shows_name:
  \<open>sublist (''<strong>'' @ toString (get_prop c ''name'') @ ''</strong>'') (clientRow formatDate c)\<close>
  unfolding clientRow_def by (rule framed_sublist) (simp add: nl_def)

lemma clientRow_shows_edit:
  \<open>sublist (''<a href="/clients/edit/'' @ toString (get_prop c ''client_id'')
             @ ''" class="btn btn-outline-primary">'') (clientRow formatDate c)\<close>
  unfolding clientRow_def by (rule framed_sublist) (simp add: nl_def)

lemma clientRow_shows_delete:
  \<open>sublist (''onclick="deleteClient('' @ toString (get_prop c ''client_id'') @ '')">'')
           (clientRow formatDate c)\<close>
  unfolding clientRow_def by (rule framed_sublist) (simp add: nl_def)

lemma clientRow_shows_badge:
  "sublist (if truthy (get_prop c ''enabled'') then badge ''bg-success'' ''Active''
            else badge ''bg-danger'' ''Inactive'') (clientRow formatDate c)"
proof (cases "truthy (get_prop c ''is_deleted'')")
  case True
  note c0 = True
  show ?thesis
  proof (cases "truthy (get_prop c ''enabled'')")
    case True
    note c1 = True
    show ?thesis
      unfolding clientRow_def
      apply (rule sublist_nth_segment [where i = 8])
       apply simp
      apply (simp only: c0 c1 if_True if_False)
      apply code_simp
      done
  next
    case False
    note c1 = False
    show ?thesis
      unfolding clientRow_def
      apply (rule sublist_nth_segment [where i = 8])
       apply simp
      apply (simp only: c0 c1 if_True if_False)
      apply code_simp
      done
  qed
next
  case False
  note c0 = False
  show ?thesis
  proof (cases "truthy (get_prop c ''enabled'')")
    case True
    note c1 = True
    show ?thesis
      unfolding clientRow_def
      apply (rule sublist_nth_segment [where i = 8])
       apply simp
      apply (simp only: c0 c1 if_True if_False)
      apply code_simp
      done
  next
    case False
    note c1 = False
    show ?thesis
      unfolding clientRow_def
      apply (rule sublist_nth_segment [where i = 8])
       apply simp
      apply (simp only: c0 c1 if_True if_False)
      apply code_simp
      done
  qed
qed

lemma clientRow_opens_once:
  assumes "list_all plain (client_texts formatDate c)"
  shows "occurrences (''<tr>'') (clientRow formatDate c @ rest)
           = 1 + occurrences (''<tr>'') rest"
proof -
  have lt: "prefix ''<'' (''<tr>'')" by code_simp
  from assms have p:
    "plain (toString (get_prop c ''client_id''))"
    "plain (toString (get_prop c ''name''))"
    "plain (toString (get_prop c ''email''))"
    "plain (toString (js_or (get_prop c ''phones'') (JStr ''-'')))"
    "plain (toString (js_or (get_prop c ''admin_id'') (JStr ''-'')))"
    "plain (formatDate (get_prop c ''date_created''))"
    by (simp_all add: client_texts_def)
  note ns = p [THEN plain_no_straddle, OF lt]
  note no = p [THEN plain_no_occurrence, OF lt]
  show ?thesis
  proof (cases "truthy (get_prop c ''is_deleted'')")
    case True
    note c0 = True
    show ?thesis
    proof (cases "truthy (get_prop c ''enabled'')")
      case True
      note c1 = True
      show ?thesis
        unfolding clientRow_def
        apply (subst occurrences_concat)
          apply (simp only: c0 c1 if_True if_False list_all_Cons_iff list_all_Nil_iff ns simp_thms)
          apply code_simp
         apply code_simp
        apply (simp only: c0 c1 if_True if_False list.map sum_list.Cons sum_list.Nil no)
        apply (rule count_before_rest)
        apply code_simp
        done
    next
      case False
      note c1 = False
      show ?thesis
        unfolding clientRow_def
        apply (subst occurrences_concat)
          apply (simp only: c0 c1 if_True if_False list_all_Cons_iff list_all_Nil_iff ns simp_thms)
          apply code_simp
         apply code_simp
        apply (simp only: c0 c1 if_True if_False list.map sum_list.Cons sum_list.Nil no)
        apply (rule count_before_rest)
        apply code_simp
        done
    qed
  next
    case False
    note c0 = False
    show ?thesis
    proof (cases "truthy (get_prop c ''enabled'')")
      case True
      note c1 = True
      show ?thesis
        unfolding clientRow_def
        apply (subst occurrences_concat)
          apply (simp only: c0 c1 if_True if_False list_all_Cons_iff list_all_Nil_iff ns simp_thms)
          apply code_simp
         apply code_simp
        apply (simp only: c0 c1 if_True if_False list.map sum_list.Cons sum_list.Nil no)
        apply (rule count_before_rest)
        apply code_simp
        done
    next
      case False
      note c1 = False
      show ?thesis
        unfolding clientRow_def
        apply (subst occurrences_concat)
          apply (simp only: c0 c1 if_True if_False list_all_Cons_iff list_all_Nil_iff ns simp_thms)
          apply code_simp
         apply code_simp
        apply (simp only: c0 c1 if_True if_False list.map sum_list.Cons sum_list.Nil no)
        apply (rule count_before_rest)
        apply code_simp
        done
    qed
  qed
qed

lemma clientRow_closes_once:
  assumes "list_all plain (client_texts formatDate c)"
  shows "occurrences (''</tr>'') (clientRow formatDate c @ rest)
           = 1 + occurrences (''</tr>'') rest"
proof -
  have lt: "prefix ''<'' (''</tr>'')" by code_simp
  from assms have p:
    "plain (toString (get_prop c ''client_id''))"
    "plain (toString (get_prop c ''name''))"
    "plain (toString (get_prop c ''email''))"
    "plain (toString (js_or (get_prop c ''phones'') (JStr ''-'')))"
    "plain (toString (js_or (get_prop c ''admin_id'') (JStr ''-'')))"
    "plain (formatDate (get_prop c ''date_created''))"
    by (simp_all add: client_texts_def)
  note ns = p [THEN plain_no_straddle, OF lt]
  note no = p [THEN plain_no_occurrence, OF lt]
  show ?thesis
  proof (cases "truthy (get_prop c ''is_deleted'')")
    case True
    note c0 = True
    show ?thesis
    proof (cases "truthy (get_prop c ''enabled'')")
      case True
      note c1 = True
      show ?thesis
        unfolding clientRow_def
        apply (subst occurrences_concat)
          apply (simp only: c0 c1 if_True if_False list_all_Cons_iff list_all_Nil_iff ns simp_thms)
          apply code_simp
         apply code_simp
        apply (simp only: c0 c1 if_True if_False list.map sum_list.Cons sum_list.Nil no)
        apply (rule count_before_rest)
        apply code_simp
        done
    next
      case False
      note c1 = False
      show ?thesis
        unfolding clientRow_def
        apply (subst occurrences_concat)
          apply (simp only: c0 c1 if_True if_False list_all_Cons_iff list_all_Nil_iff ns simp_thms)
          apply code_simp
         apply code_simp
        apply (simp only: c0 c1 if_True if_False list.map sum_list.Cons sum_list.Nil no)
        apply (rule count_before_rest)
        apply code_simp
        done
    qed
  next
    case False
    note c0 = False
    show ?thesis
    proof (cases "truthy (get_prop c ''enabled'')")
      case True
      note c1 = True
      show ?thesis
        unfolding clientRow_def
        apply (subst occurrences_concat)
          apply (simp only: c0 c1 if_True if_False list_all_Cons_iff list_all_Nil_iff ns simp_thms)
          apply code_simp
         apply code_simp
        apply (simp only: c0 c1 if_True if_False list.map sum_list.Cons sum_list.Nil no)
        apply (rule count_before_rest)
        apply code_simp
        done
    next
      case False
      note c1 = False
      show ?thesis
        unfolding clientRow_def
        apply (subst occurrences_concat)
          apply (simp only: c0 c1 if_True if_False list_all_Cons_iff list_all_Nil_iff ns simp_thms)
          apply code_simp
         apply code_simp
        apply (simp only: c0 c1 if_True if_False list.map sum_list.Cons sum_list.Nil no)
        apply (rule count_before_rest)
        apply code_simp
        done
    qed
  qed
qed

lemma clientRow_cells:
  assumes "list_all plain (client_texts formatDate c)"
  shows "occurrences (''<td>'') (clientRow formatDate c @ rest)
           = 8 + occurrences (''<td>'') rest"
proof -
  have lt: "prefix ''<'' (''<td>'')" by code_simp
  from assms have p:
    "plain (toString (get_prop c ''client_id''))"
    "plain (toString (get_prop c ''name''))"
    "plain (toString (get_prop c ''email''))"
    "plain (toString (js_or (get_prop c ''phones'') (JStr ''-'')))"
    "plain (toString (js_or (get_prop c ''admin_id'') (JStr ''-'')))"
    "plain (formatDate (get_prop c ''date_created''))"
    by (simp_all add: client_texts_def)
  note ns = p [THEN plain_no_straddle, OF lt]
  note no = p [THEN plain_no_occurrence, OF lt]
  show ?thesis
  proof (cases "truthy (get_prop c ''is_deleted'')")
    case True
    note c0 = True
    show ?thesis
    proof (cases "truthy (get_prop c ''enabled'')")
      case True
      note c1 = True
      show ?thesis
        unfolding clientRow_def
        apply (subst occurrences_concat)
          apply (simp only: c0 c1 if_True if_False list_all_Cons_iff list_all_Nil_iff ns simp_thms)
          apply code_simp
         apply code_simp
        apply (simp only: c0 c1 if_True if_False list.map sum_list.Cons sum_list.Nil no)
        apply (rule count_before_rest)
        apply code_simp
        done
    next
      case False
      note c1 = False
      show ?thesis
        unfolding clientRow_def
        apply (subst occurrences_concat)
          apply (simp only: c0 c1 if_True if_False list_all_Cons_iff list_all_Nil_iff ns simp_thms)
          apply code_simp
         apply code_simp
        apply (simp only: c0 c1 if_True if_False list.map sum_list.Cons sum_list.Nil no)
        apply (rule count_before_rest)
        apply code_simp
        done
    qed
  next
    case False
    note c0 = False
    show ?thesis
    proof (cases "truthy (get_prop c ''enabled'')")
      case True
      note c1 = True
      show ?thesis
        unfolding clientRow_def
        apply (subst occurrences_concat)
          apply (simp only: c0 c1 if_True if_False list_all_Cons_iff list_all_Nil_iff ns simp_thms)
          apply code_simp
         apply code_simp
        apply (simp only: c0 c1 if_True if_False list.map sum_list.Cons sum_list.Nil no)
        apply (rule count_before_rest)
        apply code_simp
        done
    next
      case False
      note c1 = False
      show ?thesis
        unfolding clientRow_def
        apply (subst occurrences_concat)
          apply (simp only: c0 c1 if_True if_False list_all_Cons_iff list_all_Nil_iff ns simp_thms)
          apply code_simp
         apply code_simp
        apply (simp only: c0 c1 if_True if_False list.map sum_list.Cons sum_list.Nil no)
        apply (rule count_before_rest)
        apply code_simp
        done
    qed
  qed
qed

lemma clientRow_active:
  assumes "list_all plain (client_texts formatDate c)"
  shows "occurrences (badge ''bg-success'' ''Active'') (clientRow formatDate c @ rest)
           = (if truthy (get_prop c ''enabled'') then 1 else 0) + occurrences (badge ''bg-success'' ''Active'') rest"
proof -
  have lt: "prefix ''<'' (badge ''bg-success'' ''Active'')" by code_simp
  from assms have p:
    "plain (toString (get_prop c ''client_id''))"
    "plain (toString (get_prop c ''name''))"
    "plain (toString (get_prop c ''email''))"
    "plain (toString (js_or (get_prop c ''phones'') (JStr ''-'')))"
    "plain (toString (js_or (get_prop c ''admin_id'') (JStr ''-'')))"
    "plain (formatDate (get_prop c ''date_created''))"
    by (simp_all add: client_texts_def)
  note ns = p [THEN plain_no_straddle, OF lt]
  note no = p [THEN plain_no_occurrence, OF lt]
  show ?thesis
  proof (cases "truthy (get_prop c ''is_deleted'')")
    case True
    note c0 = True
    show ?thesis
    proof (cases "truthy (get_prop c ''enabled'')")
      case True
      note c1 = True
      show ?thesis
        unfolding clientRow_def
        apply (subst occurrences_concat)
          apply (simp only: c0 c1 if_True if_False list_all_Cons_iff list_all_Nil_iff ns simp_thms)
          apply code_simp
         apply code_simp
        apply (simp only: c0 c1 if_True if_False list.map sum_list.Cons sum_list.Nil no)
        apply (rule count_before_rest)
        apply code_simp
        done
    next
      case False
      note c1 = False
      show ?thesis
        unfolding clientRow_def
        apply (subst occurrences_concat)
          apply (simp only: c0 c1 if_True if_False list_all_Cons_iff list_all_Nil_iff ns simp_thms)
          apply code_simp
         apply code_simp
        apply (simp only: c0 c1 if_True if_False list.map sum_list.Cons sum_list.Nil no)
        apply (rule count_before_rest)
        apply code_simp
        done
    qed
  next
    case False
    note c0 = False
    show ?thesis
    proof (cases "truthy (get_prop c ''enabled'')")
      case True
      note c1 = True
      show ?thesis
        unfolding clientRow_def
        apply (subst occurrences_concat)
          apply (simp only: c0 c1 if_True if_False list_all_Cons_iff list_all_Nil_iff ns simp_thms)
          apply code_simp
         apply code_simp
        apply (simp only: c0 c1 if_True if_False list.map sum_list.Cons sum_list.Nil no)
        apply (rule count_before_rest)
        apply code_simp
        done
    next
      case False
      note c1 = False
      show ?thesis
        unfolding clientRow_def
        apply (subst occurrences_concat)
          apply (simp only: c0 c1 if_True if_False list_all_Cons_iff list_all_Nil_iff ns simp_thms)
          apply code_simp
         apply code_simp
        apply (simp only: c0 c1 if_True if_False list.map sum_list.Cons sum_list.Nil no)
        apply (rule count_before_rest)
        apply code_simp
        done
    qed
  qed
qed

lemma clientRow_inactive:
  assumes "list_all plain (client_texts formatDate c)"
  shows "occurrences (badge ''bg-danger'' ''Inactive'') (clientRow formatDate c @ rest)
           = (if truthy (get_prop c ''enabled'') then 0 else 1) + occurrences (badge ''bg-danger'' ''Inactive'') rest"
proof -
  have lt: "prefix ''<'' (badge ''bg-danger'' ''Inactive'')" by code_simp
  from assms have p:
    "plain (toString (get_prop c ''client_id''))"
    "plain (toString (get_prop c ''name''))"
    "plain (toString (get_prop c ''email''))"
    "plain (toString (js_or (get_prop c ''phones'') (JStr ''-'')))"
    "plain (toString (js_or (get_prop c ''admin_id'') (JStr ''-'')))"
    "plain (formatDate (get_prop c ''date_created''))"
    by (simp_all add: client_texts_def)
  note ns = p [THEN plain_no_straddle, OF lt]
  note no = p [THEN plain_no_occurrence, OF lt]
  show ?thesis
  proof (cases "truthy (get_prop c ''is_deleted'')")
    case True
    note c0 = True
    show ?thesis
    proof (cases "truthy (get_prop c ''enabled'')")
      case True
      note c1 = True
      show ?thesis
        unfolding clientRow_def
        apply (subst occurrences_concat)
          apply (simp only: c0 c1 if_True if_False list_all_Cons_iff list_all_Nil_iff ns simp_thms)
          apply code_simp
         apply code_simp
        apply (simp only: c0 c1 if_True if_False list.map sum_list.Cons sum_list.Nil no)
        apply (rule count_before_rest)
        apply code_simp
        done
    next
      case False
      note c1 = False
      show ?thesis
        unfolding clientRow_def
        apply (subst occurrences_concat)
          apply (simp only: c0 c1 if_True if_False list_all_Cons_iff list_all_Nil_iff ns simp_thms)
          apply code_simp
         apply code_simp
        apply (simp only: c0 c1 if_True if_False list.map sum_list.Cons sum_list.Nil no)
        apply (rule count_before_rest)
        apply code_simp
        done
    qed
  next
    case False
    note c0 = False
    show ?thesis
    proof (cases "truthy (get_prop c ''enabled'')")
      case True
      note c1 = True
      show ?thesis
        unfolding clientRow_def
        apply (subst occurrences_concat)
          apply (simp only: c0 c1 if_True if_False list_all_Cons_iff list_all_Nil_iff ns simp_thms)
          apply code_simp
         apply code_simp
        apply (simp only: c0 c1 if_True if_False list.map sum_list.Cons sum_list.Nil no)
        apply (rule count_before_rest)
        apply code_simp
        done
    next
      case False
      note c1 = False
      show ?thesis
        unfolding clientRow_def
        apply (subst occurrences_concat)
          apply (simp only: c0 c1 if_True if_False list_all_Cons_iff list_all_Nil_iff ns simp_thms)
          apply code_simp
         apply code_simp
        apply (simp only: c0 c1 if_True if_False list.map sum_list.Cons sum_list.Nil no)
        apply (rule count_before_rest)
        apply code_simp
        done
    qed
  qed
qed

subsection \<open>The two renderers\<close>

lemma badge_not_empty: "badge cls label \<noteq> []"
  by (simp add: badge_def)

lemma events_set_innerHTML:
  "set_innerHTML element_id html w = w\<lparr>events := events w @ [SetInnerHTML element_id html]\<rparr>"
  by (simp add: set_innerHTML_def)

lemma displayAdmins_placeholder:
  "displayAdmins formatDate (JsonPrim JNull) w
     = (Inr (), w\<lparr>events := events w @ [SetInnerHTML ''adminsTableBody'' noAdmins]\<rparr>)"
  "displayAdmins formatDate (JsonPrim JUndefined) w
     = (Inr (), w\<lparr>events := events w @ [SetInnerHTML ''adminsTableBody'' noAdmins]\<rparr>)"
  "displayAdmins formatDate (JsonArray []) w
     = (Inr (), w\<lparr>events := events w @ [SetInnerHTML ''adminsTableBody'' noAdmins]\<rparr>)"
  by (simp_all add: displayAdmins_def set_innerHTML_def)

lemma displayClients_placeholder:
  "displayClients formatDate (JsonPrim JNull) w
     = (Inr (), w\<lparr>events := events w @ [SetInnerHTML ''clientsTableBody'' noClients]\<rparr>)"
  "displayClients formatDate (JsonPrim JUndefined) w
     = (Inr (), w\<lparr>events := events w @ [SetInnerHTML ''clientsTableBody'' noClients]\<rparr>)"
  "displayClients formatDate (JsonArray []) w
     = (Inr (), w\<lparr>events := events w @ [SetInnerHTML ''clientsTableBody'' noClients]\<rparr>)"
  by (simp_all add: displayClients_def set_innerHTML_def)

lemma displayAdmins_rows:
  "xs \<noteq> [] \<Longrightarrow> displayAdmins formatDate (JsonArray xs) w
     = (Inr (), w\<lparr>events := events w @
          [SetInnerHTML ''adminsTableBody'' (concat (map (adminRow formatDate) xs))]\<rparr>)"
  by (simp add: displayAdmins_def set_innerHTML_def join_empty_separator)

lemma displayClients_rows:
  "xs \<noteq> [] \<Longrightarrow> displayClients formatDate (JsonArray xs) w
     = (Inr (), w\<lparr>events := events w @
          [SetInnerHTML ''clientsTableBody'' (concat (map (clientRow formatDate) xs))]\<rparr>)"
  by (simp add: displayClients_def set_innerHTML_def join_empty_separator)

text \<open>
  A value that is neither missing nor empty nor an array cannot be mapped: the
  renderer raises and leaves the table as it was.
\<close>

lemma displayAdmins_not_a_collection:
  "displayAdmins formatDate (JsonPrim (JNum 5)) w = (Inl TypeError, w)"
  "displayAdmins formatDate (JsonObject [(''detail'', JStr ''x'')]) w = (Inl TypeError, w)"
  by (simp_all add: displayAdmins_def get_prop_def)

text \<open>The placeholder has no plain cell, and every data row has one.\<close>

lemma noAdmins_no_cell: "\<not> sublist ''<td>'' noAdmins"
  by code_simp

lemma noClients_no_cell: "\<not> sublist ''<td>'' noClients"
  by code_simp

lemma noAdmins_no_row: "\<not> sublist (adminRow formatDate a) noAdmins"
proof
  assume "sublist (adminRow formatDate a) noAdmins"
  moreover have "sublist ''<td>'' (''<td>'' @ toString (get_prop a ''admin_id'') @ ''</td>'')"
    by (rule sublist_append_rightI)
  ultimately have "sublist ''<td>'' noAdmins"
    using adminRow_shows_id [of a formatDate] by (meson sublist_order.order.trans)
  with noAdmins_no_cell show False by simp
qed

lemma noClients_no_row: "\<not> sublist (clientRow formatDate c) noClients"
proof
  assume "sublist (clientRow formatDate c) noClients"
  moreover have "sublist ''<td>'' (''<td>'' @ toString (get_prop c ''client_id'') @ ''</td>'')"
    by (rule sublist_append_rightI)
  ultimately have "sublist ''<td>'' noClients"
    using clientRow_shows_id [of c formatDate] by (meson sublist_order.order.trans)
  with noClients_no_cell show False by simp
qed

lemma adminRow_shows: "shows_admin formatDate a (adminRow formatDate a)"
  unfolding shows_admin_def
  by (intro conjI adminRow_shows_id adminRow_shows_name adminRow_shows_email adminRow_shows_date
        adminRow_shows_badge adminRow_shows_edit adminRow_shows_delete)

lemma clientRow_shows: "shows_client formatDate c (clientRow formatDate c)"
  unfolding shows_client_def
  by (intro conjI clientRow_shows_id clientRow_shows_name clientRow_shows_email
        clientRow_shows_phones clientRow_shows_admin clientRow_shows_date
        clientRow_shows_badge clientRow_shows_edit clientRow_shows_delete)

subsection \<open>Counting over the whole table\<close>

lemma occurrences_table:
  assumes "\<And>x rest. x \<in> set xs \<Longrightarrow> occurrences pat (row x @ rest) = k x + occurrences pat rest"
    and "pat \<noteq> []"
  shows "occurrences pat (concat (map row xs)) = sum_list (map k xs)"
  using assms by (induction xs) simp_all

lemma sum_list_constant: "sum_list (map (\<lambda>x. c) xs) = c * length (xs :: 'a list)" for c :: nat
  by (induction xs) simp_all

lemma sum_list_indicator:
  "sum_list (map (\<lambda>x. if P x then 1 else 0) xs) = length (filter P xs)"
  "sum_list (map (\<lambda>x. if P x then 0 else 1) xs) = length (filter (\<lambda>x. \<not> P x) xs)"
  by (induction xs) simp_all

lemma admins_table_counts:
  assumes "list_all (\<lambda>x. list_all plain (admin_texts formatDate x)) xs"
  shows "occurrences ''<tr>'' (concat (map (adminRow formatDate) xs)) = length xs"
    and "occurrences ''</tr>'' (concat (map (adminRow formatDate) xs)) = length xs"
    and "occurrences ''<td>'' (concat (map (adminRow formatDate) xs)) = 6 * length xs"
    and "occurrences (badge ''bg-success'' ''Active'') (concat (map (adminRow formatDate) xs))
           = length (filter (\<lambda>x. truthy (get_prop x ''enabled'')) xs)"
    and "occurrences (badge ''bg-danger'' ''Inactive'') (concat (map (adminRow formatDate) xs))
           = length (filter (\<lambda>x. \<not> truthy (get_prop x ''enabled'')) xs)"
proof -
  have p: "list_all plain (admin_texts formatDate x)" if "x \<in> set xs" for x
    using assms that by (simp add: list_all_iff)
  have "occurrences ''<tr>'' (concat (map (adminRow formatDate) xs)) = sum_list (map (\<lambda>x. 1) xs)"
    by (rule occurrences_table) (simp_all add: p adminRow_opens_once)
  then show "occurrences ''<tr>'' (concat (map (adminRow formatDate) xs)) = length xs"
    by (simp add: sum_list_constant)
  have "occurrences ''</tr>'' (concat (map (adminRow formatDate) xs)) = sum_list (map (\<lambda>x. 1) xs)"
    by (rule occurrences_table) (simp_all add: p adminRow_closes_once)
  then show "occurrences ''</tr>'' (concat (map (adminRow formatDate) xs)) = length xs"
    by (simp add: sum_list_constant)
  have "occurrences ''<td>'' (concat (map (adminRow formatDate) xs)) = sum_list (map (\<lambda>x. 6) xs)"
    by (rule occurrences_table) (simp_all add: p adminRow_cells)
  then show "occurrences ''<td>'' (concat (map (adminRow formatDate) xs)) = 6 * length xs"
    by (simp add: sum_list_constant)
  have "occurrences (badge ''bg-success'' ''Active'') (concat (map (adminRow formatDate) xs))
          = sum_list (map (\<lambda>x. if truthy (get_prop x ''enabled'') then 1 else 0) xs)"
    by (rule occurrences_table) (simp_all only: p adminRow_active badge_not_empty not_False_eq_True)
  then show "occurrences (badge ''bg-success'' ''Active'') (concat (map (adminRow formatDate) xs))
           = length (filter (\<lambda>x. truthy (get_prop x ''enabled'')) xs)"
    by (simp only: sum_list_indicator)
  have "occurrences (badge ''bg-danger'' ''Inactive'') (concat (map (adminRow formatDate) xs))
          = sum_list (map (\<lambda>x. if truthy (get_prop x ''enabled'') then 0 else 1) xs)"
    by (rule occurrences_table) (simp_all only: p adminRow_inactive badge_not_empty not_False_eq_True)
  then show "occurrences (badge ''bg-danger'' ''Inactive'') (concat (map (adminRow formatDate) xs))
           = length (filter (\<lambda>x. \<not> truthy (get_prop x ''enabled'')) xs)"
    by (simp only: sum_list_indicator)
qed

lemma clients_table_counts:
  assumes "list_all (\<lambda>x. list_all plain (client_texts formatDate x)) xs"
  shows "occurrences ''<tr>'' (concat (map (clientRow formatDate) xs)) = length xs"
    and "occurrences ''</tr>'' (concat (map (clientRow formatDate) xs)) = length xs"
    and "occurrences ''<td>'' (concat (map (clientRow formatDate) xs)) = 8 * length xs"
    and "occurrences (badge ''bg-success'' ''Active'') (concat (map (clientRow formatDate) xs))
           = length (filter (\<lambda>x. truthy (get_prop x ''enabled'')) xs)"
    and "occurrences (badge ''bg-danger'' ''Inactive'') (concat (map (clientRow formatDate) xs))
           = length (filter (\<lambda>x. \<not> truthy (get_prop x ''enabled'')) xs)"
proof -
  have p: "list_all plain (client_texts formatDate x)" if "x \<in> set xs" for x
    using assms that by (simp add: list_all_iff)
  have "occurrences ''<tr>'' (concat (map (clientRow formatDate) xs)) = sum_list (map (\<lambda>x. 1) xs)"
    by (rule occurrences_table) (simp_all add: p clientRow_opens_once)
  then show "occurrences ''<tr>'' (concat (map (clientRow formatDate) xs)) = length xs"
    by (simp add: sum_list_constant)
  have "occurrences ''</tr>'' (concat (map (clientRow formatDate) xs)) = sum_list (map (\<lambda>x. 1) xs)"
    by (rule occurrences_table) (simp_all add: p clientRow_closes_once)
  then show "occurrences ''</tr>'' (concat (map (clientRow formatDate) xs)) = length xs"
    by (simp add: sum_list_constant)
  have "occurrences ''<td>'' (concat (map (clientRow formatDate) xs)) = sum_list (map (\<lambda>x. 8) xs)"
    by (rule occurrences_table) (simp_all add: p clientRow_cells)
  then show "occurrences ''<td>'' (concat (map (clientRow formatDate) xs)) = 8 * length xs"
    by (simp add: sum_list_constant)
  have "occurrences (badge ''bg-success'' ''Active'') (concat (map (clientRow formatDate) xs))
          = sum_list (map (\<lambda>x. if truthy (get_prop x ''enabled'') then 1 else 0) xs)"
    by (rule occurrences_table) (simp_all only: p clientRow_active badge_not_empty not_False_eq_True)
  then show "occurrences (badge ''bg-success'' ''Active'') (concat (map (clientRow formatDate) xs))
           = length (filter (\<lambda>x. truthy (get_prop x ''enabled'')) xs)"
    by (simp only: sum_list_indicator)
  have "occurrences (badge ''bg-danger'' ''Inactive'') (concat (map (clientRow formatDate) xs))
          = sum_list (map (\<lambda>x. if truthy (get_prop x ''enabled'') then 0 else 1) xs)"
    by (rule occurrences_table) (simp_all only: p clientRow_inactive badge_not_empty not_False_eq_True)
  then show "occurrences (badge ''bg-danger'' ''Inactive'') (concat (map (clientRow formatDate) xs))
           = length (filter (\<lambda>x. \<not> truthy (get_prop x ''enabled'')) xs)"
    by (simp only: sum_list_indicator)
qed

text \<open>A number is printed in digits and a sign: it never holds markup.\<close>

lemma plain_string_of_nat: "plain (string_of_nat n)"
proof (induction n rule: string_of_nat.induct)
  case (1 n)
  have d: "digit_char m \<noteq> CHR ''<''" for m
  proof -
    have "''0123456789'' ! (m mod 10) \<in> set ''0123456789''"
      by (rule nth_mem) simp
    moreover have "CHR ''<'' \<notin> set ''0123456789''" by simp
    ultimately show ?thesis by (metis digit_char.simps)
  qed
  note d = d d [THEN not_sym]
  show ?case
  proof (cases "n < 10")
    case True
    then show ?thesis by (subst string_of_nat.simps) (simp add: plain_def d del: digit_char.simps)
  next
    case False
    with 1 show ?thesis
      by (subst string_of_nat.simps) (simp add: plain_def d del: digit_char.simps)
  qed
qed

lemma plain_number: "plain (toString (JNum n))"
  using plain_string_of_nat by (simp add: string_of_int_def plain_def)

lemma plain_toString: "plain (toString v) = (case v of JStr s \<Rightarrow> plain s | _ \<Rightarrow> True)"
  using plain_number by (cases v) (simp_all add: plain_def del: toString.simps(4))

section \<open>The tables\<close>

text \<open>
  Claim C7 says of every collection that it is rendered in exactly as many rows as
  it has records, each with the \<^verbatim>\<open>Active\<close> badge if and only if the record is
  enabled. The values are put into the markup as they are, so this fails for values
  that hold markup: one record whose name is \<^verbatim>\<open><tr>\<close> gives a table text that opens
  two rows, and a record that is not enabled and whose name is the text of the
  \<^verbatim>\<open>Active\<close> badge gives a row with that badge in it.
\<close>

theorem markup_in_values_counterexample:
  "displayAdmins iso_date (JsonArray [tagged]) anonymous
     = (Inr (), \<lparr>cookie = ''theme=dark'',
                events = [SetInnerHTML ''adminsTableBody'' (adminRow iso_date tagged)]\<rparr>)
   \<and> length [tagged] = 1
   \<and> occurrences ''<tr>'' (adminRow iso_date tagged) = 2
   \<and> displayClients iso_date (JsonArray [tagged]) anonymous
     = (Inr (), \<lparr>cookie = ''theme=dark'',
                events = [SetInnerHTML ''clientsTableBody'' (clientRow iso_date tagged)]\<rparr>)
   \<and> occurrences ''<tr>'' (clientRow iso_date tagged) = 2
   \<and> \<not> truthy (get_prop disguised ''enabled'')
   \<and> occurrences (badge ''bg-success'' ''Active'') (adminRow iso_date disguised) = 1
   \<and> occurrences (badge ''bg-success'' ''Active'') (clientRow iso_date disguised) = 1"
  by code_simp

text \<open>
  Claim C7, amended. For both renderers and every collection: a missing
  (\<^verbatim>\<open>null\<close>, \<^verbatim>\<open>undefined\<close>) or empty collection sets the table body to the
  placeholder, which holds no data row; a collection of N records sets it to the N
  row texts of the records, in order; each row text holds the record's fields in
  their cells, the badge \<^verbatim>\<open>Active\<close> when \<^verbatim>\<open>enabled\<close> is truthy and
  \<^verbatim>\<open>Inactive\<close> otherwise, and the edit link and delete button for the record's id.
  When no interpolated value holds \<^verbatim>\<open><\<close>, the table text opens and closes exactly
  N rows with the cells of N rows, it holds one \<^verbatim>\<open>Active\<close> badge for each enabled
  record and one \<^verbatim>\<open>Inactive\<close> badge for each other record, and each row holds
  exactly one badge, the one of its record. (A number is printed in digits, so only
  strings and formatted dates can hold markup.)
\<close>

theorem tables_show_plain_collections:
  "(displayAdmins formatDate (JsonPrim JNull) w
      = (Inr (), w\<lparr>events := events w @ [SetInnerHTML ''adminsTableBody'' noAdmins]\<rparr>)
    \<and> displayAdmins formatDate (JsonPrim JUndefined) w
      = (Inr (), w\<lparr>events := events w @ [SetInnerHTML ''adminsTableBody'' noAdmins]\<rparr>)
    \<and> displayAdmins formatDate (JsonArray []) w
      = (Inr (), w\<lparr>events := events w @ [SetInnerHTML ''adminsTableBody'' noAdmins]\<rparr>)
    \<and> \<not> sublist (adminRow formatDate x) noAdmins
    \<and> (xs \<noteq> [] \<longrightarrow> displayAdmins formatDate (JsonArray xs) w
          = (Inr (), w\<lparr>events := events w @
               [SetInnerHTML ''adminsTableBody'' (concat (map (adminRow formatDate) xs))]\<rparr>))
    \<and> shows_admin formatDate x (adminRow formatDate x)
    \<and> (list_all (\<lambda>x. list_all plain (admin_texts formatDate x)) xs
         \<longrightarrow> occurrences ''<tr>'' (concat (map (adminRow formatDate) xs)) = length xs
           \<and> occurrences ''</tr>'' (concat (map (adminRow formatDate) xs)) = length xs
           \<and> occurrences ''<td>'' (concat (map (adminRow formatDate) xs)) = 6 * length xs
           \<and> occurrences (badge ''bg-success'' ''Active'') (concat (map (adminRow formatDate) xs))
               = length (filter (\<lambda>x. truthy (get_prop x ''enabled'')) xs)
           \<and> occurrences (badge ''bg-danger'' ''Inactive'') (concat (map (adminRow formatDate) xs))
               = length (filter (\<lambda>x. \<not> truthy (get_prop x ''enabled'')) xs))
    \<and> (list_all plain (admin_texts formatDate x)
         \<longrightarrow> occurrences (badge ''bg-success'' ''Active'') (adminRow formatDate x)
               = (if truthy (get_prop x ''enabled'') then 1 else 0)
           \<and> occurrences (badge ''bg-danger'' ''Inactive'') (adminRow formatDate x)
               = (if truthy (get_prop x ''enabled'') then 0 else 1)))
   \<and> (displayClients formatDate (JsonPrim JNull) w
      = (Inr (), w\<lparr>events := events w @ [SetInnerHTML ''clientsTableBody'' noClients]\<rparr>)
    \<and> displayClients formatDate (JsonPrim JUndefined) w
      = (Inr (), w\<lparr>events := events w @ [SetInnerHTML ''clientsTableBody'' noClients]\<rparr>)
    \<and> displayClients formatDate (JsonArray []) w
      = (Inr (), w\<lparr>events := events w @ [SetInnerHTML ''clientsTableBody'' noClients]\<rparr>)
    \<and> \<not> sublist (clientRow formatDate x) noClients
    \<and> (xs \<noteq> [] \<longrightarrow> displayClients formatDate (JsonArray xs) w
          = (Inr (), w\<lparr>events := events w @
               [SetInnerHTML ''clientsTableBody'' (concat (map (clientRow formatDate) xs))]\<rparr>))
    \<and> shows_client formatDate x (clientRow formatDate x)
    \<and> (list_all (\<lambda>x. list_all plain (client_texts formatDate x)) xs
         \<longrightarrow> occurrences ''<tr>'' (concat (map (clientRow formatDate) xs)) = length xs
           \<and> occurrences ''</tr>'' (concat (map (clientRow formatDate) xs)) = length xs
           \<and> occurrences ''<td>'' (concat (map (clientRow formatDate) xs)) = 8 * length xs
           \<and> occurrences (badge ''bg-success'' ''Active'') (concat (map (clientRow formatDate) xs))
               = length (filter (\<lambda>x. truthy (get_prop x ''enabled'')) xs)
           \<and> occurrences (badge ''bg-danger'' ''Inactive'') (concat (map (clientRow formatDate) xs))
               = length (filter (\<lambda>x. \<not> truthy (get_prop x ''enabled'')) xs))
    \<and> (list_all plain (client_texts formatDate x)
         \<longrightarrow> occurrences (badge ''bg-success'' ''Active'') (clientRow formatDate x)
               = (if truthy (get_prop x ''enabled'') then 1 else 0)
           \<and> occurrences (badge ''bg-danger'' ''Inactive'') (clientRow formatDate x)
               = (if truthy (get_prop x ''enabled'') then 0 else 1)))"
proof -
  have admins: "xs \<noteq> [] \<longrightarrow> displayAdmins formatDate (JsonArray xs) w
          = (Inr (), w\<lparr>events := events w @
               [SetInnerHTML ''adminsTableBody'' (concat (map (adminRow formatDate) xs))]\<rparr>)"
    by (simp add: displayAdmins_rows)
  have clients: "xs \<noteq> [] \<longrightarrow> displayClients formatDate (JsonArray xs) w
          = (Inr (), w\<lparr>events := events w @
               [SetInnerHTML ''clientsTableBody'' (concat (map (clientRow formatDate) xs))]\<rparr>)"
    by (simp add: displayClients_rows)
  have admin_row: "list_all plain (admin_texts formatDate x)
         \<longrightarrow> occurrences (badge ''bg-success'' ''Active'') (adminRow formatDate x)
               = (if truthy (get_prop x ''enabled'') then 1 else 0)
           \<and> occurrences (badge ''bg-danger'' ''Inactive'') (adminRow formatDate x)
               = (if truthy (get_prop x ''enabled'') then 0 else 1)"
  proof (intro impI conjI)
    assume p: "list_all plain (admin_texts formatDate x)"
    show "occurrences (badge ''bg-success'' ''Active'') (adminRow formatDate x)
               = (if truthy (get_prop x ''enabled'') then 1 else 0)"
      using adminRow_active [OF p, of "[]"]
      by (simp only: append_Nil2 occurrences.simps badge_not_empty if_False add_0_right)
    show "occurrences (badge ''bg-danger'' ''Inactive'') (adminRow formatDate x)
               = (if truthy (get_prop x ''enabled'') then 0 else 1)"
      using adminRow_inactive [OF p, of "[]"]
      by (simp only: append_Nil2 occurrences.simps badge_not_empty if_False add_0_right)
  qed
  have client_row: "list_all plain (client_texts formatDate x)
         \<longrightarrow> occurrences (badge ''bg-success'' ''Active'') (clientRow formatDate x)
               = (if truthy (get_prop x ''enabled'') then 1 else 0)
           \<and> occurrences (badge ''bg-danger'' ''Inactive'') (clientRow formatDate x)
               = (if truthy (get_prop x ''enabled'') then 0 else 1)"
  proof (intro impI conjI)
    assume p: "list_all plain (client_texts formatDate x)"
    show "occurrences (badge ''bg-success'' ''Active'') (clientRow formatDate x)
               = (if truthy (get_prop x ''enabled'') then 1 else 0)"
      using clientRow_active [OF p, of "[]"]
      by (simp only: append_Nil2 occurrences.simps badge_not_empty if_False add_0_right)
    show "occurrences (badge ''bg-danger'' ''Inactive'') (clientRow formatDate x)
               = (if truthy (get_prop x ''enabled'') then 0 else 1)"
      using clientRow_inactive [OF p, of "[]"]
      by (simp only: append_Nil2 occurrences.simps badge_not_empty if_False add_0_right)
  qed
  show ?thesis
    by (intro conjI impI displayAdmins_placeholder displayClients_placeholder noAdmins_no_row
          noClients_no_row admins [rule_format] clients [rule_format] adminRow_shows
          clientRow_shows admins_table_counts clients_table_counts
          admin_row [rule_format, THEN conjunct1] admin_row [rule_format, THEN conjunct2]
          client_row [rule_format, THEN conjunct1] client_row [rule_format, THEN conjunct2])
qed

theorem tables_show_plain_collections_witness:
  "[acme, globex] \<noteq> []
   \<and> list_all (\<lambda>x. list_all plain (admin_texts iso_date x)) [acme, globex]
   \<and> list_all (\<lambda>x. list_all plain (client_texts iso_date x)) [acme, globex]
   \<and> list_all plain (admin_texts iso_date globex)
   \<and> list_all plain (client_texts iso_date globex)
   \<and> displayAdmins iso_date (JsonArray [acme, globex]) anonymous
       = (Inr (), \<lparr>cookie = ''theme=dark'',
                  events = [SetInnerHTML ''adminsTableBody'' (adminRow iso_date acme @ adminRow iso_date globex)]\<rparr>)
   \<and> occurrences ''<tr>'' (adminRow iso_date acme @ adminRow iso_date globex) = 2
   \<and> occurrences ''</tr>'' (adminRow iso_date acme @ adminRow iso_date globex) = 2
   \<and> occurrences ''<td>'' (adminRow iso_date acme @ adminRow iso_date globex) = 12
   \<and> occurrences (badge ''bg-success'' ''Active'') (adminRow iso_date acme @ adminRow iso_date globex) = 1
   \<and> occurrences (badge ''bg-danger'' ''Inactive'') (adminRow iso_date acme @ adminRow iso_date globex) = 1
   \<and> occurrences (badge ''bg-success'' ''Active'') (adminRow iso_date globex) = 0
   \<and> occurrences (badge ''bg-danger'' ''Inactive'') (adminRow iso_date globex) = 1
   \<and> sublist ''<strong>Globex</strong>'' (adminRow iso_date globex)
   \<and> displayClients iso_date (JsonArray [acme, globex]) anonymous
       = (Inr (), \<lparr>cookie = ''theme=dark'',
                  events = [SetInnerHTML ''clientsTableBody'' (clientRow iso_date acme @ clientRow iso_date globex)]\<rparr>)
   \<and> occurrences ''<tr>'' (clientRow iso_date acme @ clientRow iso_date globex) = 2
   \<and> occurrences ''</tr>'' (clientRow iso_date acme @ clientRow iso_date globex) = 2
   \<and> occurrences ''<td>'' (clientRow iso_date acme @ clientRow iso_date globex) = 16
   \<and> occurrences (badge ''bg-success'' ''Active'') (clientRow iso_date acme @ clientRow iso_date globex) = 1
   \<and> occurrences (badge ''bg-danger'' ''Inactive'') (clientRow iso_date acme @ clientRow iso_date globex) = 1
   \<and> occurrences (badge ''bg-success'' ''Active'') (clientRow iso_date globex) = 0
   \<and> occurrences (badge ''bg-danger'' ''Inactive'') (clientRow iso_date globex) = 1
   \<and> sublist ''<strong>Globex</strong>'' (clientRow iso_date globex)"
proof -
  have h1: "[acme, globex] \<noteq> []" by simp
  have h2: "list_all (\<lambda>x. list_all plain (admin_texts iso_date x)) [acme, globex]" by code_simp
  have h3: "list_all (\<lambda>x. list_all plain (client_texts iso_date x)) [acme, globex]" by code_simp
  have h4: "list_all plain (admin_texts iso_date globex)" by code_simp
  have h5: "list_all plain (client_texts iso_date globex)" by code_simp
  have e: "truthy (get_prop acme ''enabled'')" "\<not> truthy (get_prop globex ''enabled'')"
    by code_simp+
  have n: "toString (get_prop globex ''name'') = ''Globex''" by code_simp
  have w: "anonymous\<lparr>events := events anonymous @ evs\<rparr> = \<lparr>cookie = ''theme=dark'', events = evs\<rparr>"
    for evs by (simp add: anonymous_def)
  note t = tables_show_plain_collections
    [where formatDate = iso_date and w = anonymous and x = globex and xs = "[acme, globex]"]
  note a = t [THEN conjunct1] and c = t [THEN conjunct2]
  from a h1 h2 h4 e n w c h3 h5 show ?thesis
    by (simp add: shows_admin_def shows_client_def)
qed

end
